theory Spec2Isabelle
  imports Complex_Main
begin

chapter \<open>The GDPR CSV loader (\<^verbatim>\<open>add_data_to_tables.py\<close>)\<close>

text \<open>
  A shallow embedding of the loader script: the four field coercers, the batcher
  \<^verbatim>\<open>chunk_iter\<close>, the three table loaders and \<^verbatim>\<open>main\<close>, followed by the
  properties proved about them.

  What the script takes from outside (the interpreter's limit on integer strings,
  pandas' date parser and CSV reader, the file system, the database driver) is a field
  of the record \<open>env\<close>: the theorems hold for every environment. Python's own
  \<^verbatim>\<open>str.strip\<close>, \<^verbatim>\<open>int\<close> and \<^verbatim>\<open>Decimal\<close> are modelled from their documented
  grammar.
\<close>

section \<open>Exceptions\<close>

text \<open>
  The exceptions the script can meet, all of them subclasses of Python's
  \<^verbatim>\<open>Exception\<close>; each carries the text that \<^verbatim>\<open>str(e)\<close> gives.
  \<^verbatim>\<open>ValueError\<close> is raised by \<^verbatim>\<open>int\<close>, by \<^verbatim>\<open>range\<close> and by the loaders
  themselves, \<^verbatim>\<open>InvalidOperation\<close> by \<^verbatim>\<open>Decimal\<close>, \<^verbatim>\<open>KeyError\<close> by a lookup
  in a row, \<^verbatim>\<open>DatabaseError\<close> by psycopg2; \<^verbatim>\<open>LibraryError\<close> stands for whatever
  else pandas raises while reading or parsing.
\<close>

datatype py_exn =
    ValueError string
  | InvalidOperation string
  | KeyError string
  | DatabaseError string
  | LibraryError string

text \<open>A computation that returns a value or raises.\<close>

definition bind_exn :: "py_exn + 'a \<Rightarrow> ('a \<Rightarrow> py_exn + 'b) \<Rightarrow> py_exn + 'b" where
  "bind_exn m f = (case m of Inl e \<Rightarrow> Inl e | Inr v \<Rightarrow> f v)"

text \<open>\<^verbatim>\<open>try: body  except Exception as e: handler\<close>\<close>

definition try_except :: "py_exn + 'a \<Rightarrow> (py_exn \<Rightarrow> py_exn + 'a) \<Rightarrow> py_exn + 'a" where
  "try_except body handler = (case body of Inl e \<Rightarrow> handler e | Inr v \<Rightarrow> Inr v)"

section \<open>Python strings\<close>

text \<open>
  A Python \<^verbatim>\<open>str\<close> is modelled by a \<^typ>\<open>string\<close> whose characters are the code
  points U+0000 to U+00FF. Among these, \<^verbatim>\<open>str.isspace\<close> holds for the twelve
  characters below (which \<^verbatim>\<open>strip()\<close> removes from both ends), and the decimal
  digits are \<^verbatim>\<open>0\<close> to \<^verbatim>\<open>9\<close>.
\<close>

definition py_isspace :: "char \<Rightarrow> bool" where
  "py_isspace c \<longleftrightarrow>
     c \<in> set [CHR 0x09, CHR 0x0A, CHR 0x0B, CHR 0x0C, CHR 0x0D, CHR 0x1C, CHR 0x1D, CHR 0x1E,
              CHR 0x1F, CHR 0x20, CHR 0x85, CHR 0xA0]"

definition py_isdigit :: "char \<Rightarrow> bool" where
  "py_isdigit c \<longleftrightarrow> c \<in> set ''0123456789''"

definition digit_val :: "char \<Rightarrow> int" where
  "digit_val c = of_char c - 48"

definition digits_val :: "string \<Rightarrow> int" where
  "digits_val ds = foldl (\<lambda>a c. 10 * a + digit_val c) 0 ds"

definition lstrip :: "string \<Rightarrow> string" where
  "lstrip s = dropWhile py_isspace s"

definition rstrip :: "string \<Rightarrow> string" where
  "rstrip s = rev (dropWhile py_isspace (rev s))"

definition strip :: "string \<Rightarrow> string" where
  "strip s = rstrip (lstrip s)"

text \<open>\<^verbatim>\<open>s.replace(c, "")\<close> for a one-character \<^verbatim>\<open>c\<close>.\<close>

definition remove_char :: "char \<Rightarrow> string \<Rightarrow> string" where
  "remove_char c s = filter (\<lambda>x. x \<noteq> c) s"

definition py_lower :: "char \<Rightarrow> char" where
  "py_lower c =
     (case map_of (zip ''ABCDEFGHIJKLMNOPQRSTUVWXYZ'' ''abcdefghijklmnopqrstuvwxyz'') c of
        Some l \<Rightarrow> l
      | None \<Rightarrow> c)"

text \<open>\<^verbatim>\<open>sep.join(xs)\<close>\<close>

fun join :: "string \<Rightarrow> string list \<Rightarrow> string" where
  "join sep [] = []"
| "join sep [x] = x"
| "join sep (x # y # ys) = x @ sep @ join sep (y # ys)"

text \<open>
  \<^verbatim>\<open>repr\<close> of a string without quotes, backslashes or unprintable characters (as
  every column name of the script is), and of a list of such strings.
\<close>

definition py_repr_str :: "string \<Rightarrow> string" where
  "py_repr_str s = CHR 0x27 # s @ [CHR 0x27]"

definition py_repr_list :: "string list \<Rightarrow> string" where
  "py_repr_list xs = ''['' @ join '', '' (map py_repr_str xs) @ '']''"

text \<open>\<^verbatim>\<open>str(n)\<close> for an integer: the decimal digits, after a minus sign when negative.\<close>

definition digit_char :: "nat \<Rightarrow> char" where
  "digit_char k = ''0123456789'' ! k"

fun str_nat :: "nat \<Rightarrow> string" where
  "str_nat n =
     (if n < 10 then [digit_char n] else str_nat (n div 10) @ [digit_char (n mod 10)])"

declare str_nat.simps [simp del]


section \<open>The built-in \<^verbatim>\<open>int\<close>\<close>

text \<open>
  \<^verbatim>\<open>int(s)\<close> for a string, base 10: surrounding whitespace is skipped, one sign is
  optional, then come decimal digits, where single underscores may stand between two
  digits. The scan keeps the previous character, the value so far and the number of
  digits read, as CPython's does; an underscore after an underscore, a trailing
  underscore and any other character are errors, a leading underscore and an empty body
  are rejected before the scan.

  When the interpreter's limit \<^verbatim>\<open>sys.get_int_max_str_digits()\<close> is not 0 and the
  string has more digits than the limit, \<^verbatim>\<open>int\<close> raises \<^verbatim>\<open>ValueError\<close> as well.
\<close>

fun scan_digits :: "char \<Rightarrow> int \<Rightarrow> nat \<Rightarrow> string \<Rightarrow> (int \<times> nat) option" where
  "scan_digits prev acc k [] = (if prev = CHR ''_'' then None else Some (acc, k))"
| "scan_digits prev acc k (c # cs) =
     (if c = CHR ''_'' then (if prev = CHR ''_'' then None else scan_digits c acc k cs)
      else if py_isdigit c then scan_digits c (10 * acc + digit_val c) (Suc k) cs
      else None)"

definition py_int :: "nat \<Rightarrow> string \<Rightarrow> py_exn + int" where
  "py_int max_str_digits s =
     (let t = strip s;
          neg = (t \<noteq> [] \<and> hd t = CHR ''-'');
          body = (if t \<noteq> [] \<and> (hd t = CHR ''+'' \<or> hd t = CHR ''-'') then tl t else t)
      in if body = [] \<or> hd body = CHR ''_''
         then Inl (ValueError ''invalid literal for int() with base 10'')
         else (case scan_digits (CHR 0x00) 0 0 body of
                 None \<Rightarrow> Inl (ValueError ''invalid literal for int() with base 10'')
               | Some (v, k) \<Rightarrow>
                   if 0 < max_str_digits \<and> max_str_digits < k
                   then Inl (ValueError ''Exceeds the limit for integer string conversion'')
                   else Inr (if neg then - v else v)))"

section \<open>\<^verbatim>\<open>decimal.Decimal\<close>\<close>

text \<open>
  A \<^verbatim>\<open>Decimal\<close> is a sign, a coefficient and an exponent (the number
  \<open>\<plusminus> coefficient * 10 ^ exponent\<close>, kept exactly, trailing zeros included), an
  infinity, or a NaN (quiet or signalling, with a payload).
\<close>

datatype decimal =
    Finite (negative: bool) (coefficient: int) (exponent: int)
  | Infinity bool
  | NaN_dec bool bool int


text \<open>
  \<^verbatim>\<open>Decimal(s)\<close> for a string, after the module's grammar: surrounding whitespace
  is stripped and every underscore removed; then, case-insensitively,

  \<^verbatim>\<open>[sign] (digits [. [digits]] | . digits) [E [sign] digits]\<close>,
  \<^verbatim>\<open>[sign] Inf[inity]\<close> or \<^verbatim>\<open>[sign] [s]NaN[digits]\<close>.

  The coefficient is the integer written by the digits before and after the point, the
  exponent is the written exponent less the number of digits after the point. Anything
  else raises \<^verbatim>\<open>InvalidOperation\<close> (the default context traps it).
\<close>

definition parse_exponent :: "string \<Rightarrow> int option" where
  "parse_exponent s =
     (let neg = (s \<noteq> [] \<and> hd s = CHR ''-'');
          ds = (if s \<noteq> [] \<and> (hd s = CHR ''+'' \<or> hd s = CHR ''-'') then tl s else s)
      in if ds \<noteq> [] \<and> list_all py_isdigit ds
         then Some (if neg then - digits_val ds else digits_val ds)
         else None)"

definition parse_number :: "string \<Rightarrow> (int \<times> int) option" where
  "parse_number s =
     (let intpart = takeWhile py_isdigit s;
          r1 = dropWhile py_isdigit s;
          dot = (r1 \<noteq> [] \<and> hd r1 = CHR ''.'');
          fracpart = (if dot then takeWhile py_isdigit (tl r1) else []);
          r2 = (if dot then dropWhile py_isdigit (tl r1) else r1);
          exp = (if r2 = [] then Some 0
                 else if hd r2 = CHR ''e'' then parse_exponent (tl r2)
                 else None)
      in if intpart = [] \<and> fracpart = [] then None
         else (case exp of
                 None \<Rightarrow> None
               | Some e \<Rightarrow> Some (digits_val (intpart @ fracpart), e - int (length fracpart))))"

definition py_Decimal :: "string \<Rightarrow> py_exn + decimal" where
  "py_Decimal s =
     (let t = remove_char (CHR ''_'') (strip s);
          neg = (t \<noteq> [] \<and> hd t = CHR ''-'');
          u = map py_lower (if t \<noteq> [] \<and> (hd t = CHR ''+'' \<or> hd t = CHR ''-'') then tl t else t)
      in case parse_number u of
           Some (c, e) \<Rightarrow> Inr (Finite neg c e)
         | None \<Rightarrow>
             if u = ''inf'' \<or> u = ''infinity'' then Inr (Infinity neg)
             else if take 3 u = ''nan'' \<and> list_all py_isdigit (drop 3 u)
               then Inr (NaN_dec neg False (digits_val (drop 3 u)))
             else if take 4 u = ''snan'' \<and> list_all py_isdigit (drop 4 u)
               then Inr (NaN_dec neg True (digits_val (drop 4 u)))
             else Inl (InvalidOperation ''ConversionSyntax''))"

section \<open>Values\<close>

text \<open>
  A cell of a frame read by \<^verbatim>\<open>pd.read_csv(path, dtype=str)\<close> is a string, or the
  float NaN where the field is missing. \<^verbatim>\<open>pd.isna\<close> holds of NaN only, and
  \<^verbatim>\<open>str\<close> of NaN is \<^verbatim>\<open>'nan'\<close>.
\<close>

datatype cell = NaN | Str string

fun isna :: "cell \<Rightarrow> bool" where
  "isna NaN = True"
| "isna (Str s) = False"

fun str_cell :: "cell \<Rightarrow> string" where
  "str_cell NaN = ''nan''"
| "str_cell (Str s) = s"

text \<open>
  \<^verbatim>\<open>pd.to_datetime\<close> gives a timestamp (a calendar date and the time of day in
  nanoseconds) or NaT; \<^verbatim>\<open>dt.date()\<close> is the date.
\<close>

datatype py_date = Date (year: int) (month: int) (day: int)

datatype timestamp = NaT | Timestamp py_date int

text \<open>What a position of a row tuple holds: \<^verbatim>\<open>None\<close> (the absent marker) or a typed value.\<close>

datatype py_value =
    PyNone
  | PyInt int
  | PyStr string
  | PyDecimal decimal
  | PyDate py_date

section \<open>Frames, statements and the environment\<close>

text \<open>
  A frame has its column labels and its rows in file order; a row (a pandas
  \<^verbatim>\<open>Series\<close>) pairs each label with its cell, and \<^verbatim>\<open>r[c]\<close> raises
  \<^verbatim>\<open>KeyError\<close> for a label the row does not have. In a frame that
  \<^verbatim>\<open>pd.read_csv\<close> builds, the labels are distinct and every row has exactly the
  frame's columns.
\<close>

type_synonym series = "(string \<times> cell) list"

record dataframe =
  columns :: "string list"
  records :: "series list"

definition wf_dataframe :: "dataframe \<Rightarrow> bool" where
  "wf_dataframe df \<longleftrightarrow>
     distinct (columns df) \<and> list_all (\<lambda>r. map fst r = columns df) (records df)"

definition getitem :: "series \<Rightarrow> string \<Rightarrow> py_exn + cell" where
  "getitem r c = (case map_of r c of None \<Rightarrow> Inl (KeyError c) | Some v \<Rightarrow> Inr v)"

text \<open>
  The statement \<^verbatim>\<open>INSERT INTO table (columns) VALUES %s\<close>, and the calls the script
  makes on the database driver.
\<close>

datatype insert_stmt = InsertInto string "string list"

datatype db_call =
    Connect
  | Cursor
  | ExecuteValues insert_stmt "py_value list list"
  | Commit
  | Rollback
  | Close

text \<open>
  The environment of a run. \<open>db_raises env calls c\<close> tells whether the driver call
  \<open>c\<close>, made after the calls \<open>calls\<close>, raises, and with which message.
\<close>

record env =
  int_max_str_digits :: nat
  to_datetime :: "string \<Rightarrow> py_exn + timestamp"
  read_csv :: "string \<Rightarrow> py_exn + dataframe"
  path_exists :: "string \<Rightarrow> bool"
  db_raises :: "db_call list \<Rightarrow> db_call \<Rightarrow> string option"

text \<open>The module's constants, read from the process environment at import.\<close>

record config =
  PGHOST :: string
  PGPORT :: string
  PGDATABASE :: string
  CSV_GDPR_TEXT :: string
  CSV_GDPR_VIOLATIONS :: string
  CSV_GDPR_DATASET :: string
  BATCH_SIZE :: int

text \<open>
  The effects of a run: the driver calls made, in order (a call that raised included),
  and the arguments of the \<^verbatim>\<open>print\<close> calls.
\<close>

record world =
  db_trace :: "db_call list"
  stdout :: "string list"

definition py_print :: "string \<Rightarrow> world \<Rightarrow> world" where
  "py_print line w = w\<lparr>stdout := stdout w @ [line]\<rparr>"

definition db :: "env \<Rightarrow> db_call \<Rightarrow> world \<Rightarrow> (py_exn + unit) \<times> world" where
  "db env c w =
     ((case db_raises env (db_trace w) c of
         None \<Rightarrow> Inr ()
       | Some msg \<Rightarrow> Inl (DatabaseError msg)),
      w\<lparr>db_trace := db_trace w @ [c]\<rparr>)"

definition bind_io ::
  "(py_exn + 'a) \<times> world \<Rightarrow> ('a \<Rightarrow> world \<Rightarrow> (py_exn + 'b) \<times> world) \<Rightarrow> (py_exn + 'b) \<times> world"
where
  "bind_io m f = (case m of (Inl e, w) \<Rightarrow> (Inl e, w) | (Inr v, w) \<Rightarrow> f v w)"

section \<open>The field coercers\<close>

text \<open>
  \<^verbatim>\<open>
  def to_int(val):
      try:
          if pd.isna(val) or str(val).strip() == "":
              return None
          return int(str(val).strip())
      except Exception:
          return None
  \<close>
\<close>

definition to_int :: "env \<Rightarrow> cell \<Rightarrow> py_exn + py_value" where
  "to_int env val =
     try_except
       (if isna val \<or> strip (str_cell val) = [] then Inr PyNone
        else bind_exn (py_int (int_max_str_digits env) (strip (str_cell val)))
               (\<lambda>n. Inr (PyInt n)))
       (\<lambda>e. Inr PyNone)"

text \<open>
  \<^verbatim>\<open>
  def to_text(val):
      if pd.isna(val):
          return ""
      return str(val).strip()
  \<close>
\<close>

definition to_text :: "cell \<Rightarrow> py_exn + py_value" where
  "to_text val = (if isna val then Inr (PyStr []) else Inr (PyStr (strip (str_cell val))))"

text \<open>
  \<^verbatim>\<open>
  def to_numeric(val):
      try:
          if pd.isna(val) or str(val).strip() == "":
              return None
          return Decimal(str(val).replace(",", "").strip())
      except Exception:
          return None
  \<close>
\<close>

definition to_numeric :: "cell \<Rightarrow> py_exn + py_value" where
  "to_numeric val =
     try_except
       (if isna val \<or> strip (str_cell val) = [] then Inr PyNone
        else bind_exn (py_Decimal (strip (remove_char (CHR '','') (str_cell val))))
               (\<lambda>d. Inr (PyDecimal d)))
       (\<lambda>e. Inr PyNone)"

text \<open>
  \<^verbatim>\<open>
  def to_date(val):
      try:
          if pd.isna(val) or str(val).strip() == "":
              return None
          dt = pd.to_datetime(val, infer_datetime_format=True, errors="coerce")
          return None if pd.isna(dt) else dt.date()
      except Exception:
          return None
  \<close>
\<close>

definition to_date :: "env \<Rightarrow> cell \<Rightarrow> py_exn + py_value" where
  "to_date env val =
     try_except
       (if isna val \<or> strip (str_cell val) = [] then Inr PyNone
        else bind_exn (to_datetime env (str_cell val))
               (\<lambda>dt. case dt of NaT \<Rightarrow> Inr PyNone | Timestamp d t \<Rightarrow> Inr (PyDate d)))
       (\<lambda>e. Inr PyNone)"

section \<open>The batcher\<close>

text \<open>
  \<^verbatim>\<open>for i in range(0, len(seq), size): yield seq[i : i + size]\<close>

  The loop variable starts at 0 and grows by \<^verbatim>\<open>size\<close> while it is below
  \<^verbatim>\<open>len(seq)\<close>; the slice is \<^verbatim>\<open>take size (drop i seq)\<close>. The generator is modelled
  by the list of the chunks it yields.
\<close>

function chunk_from :: "'a list \<Rightarrow> nat \<Rightarrow> nat \<Rightarrow> 'a list list" where
  "chunk_from seq n i =
     (if i < length seq \<and> 0 < n then take n (drop i seq) # chunk_from seq n (i + n) else [])"
  by pat_completeness auto
termination
  by (relation "measure (\<lambda>(seq, n, i). length seq - i)") auto

declare chunk_from.simps [simp del]

text \<open>
  \<^verbatim>\<open>range\<close> raises \<^verbatim>\<open>ValueError\<close> for a step of zero, and is empty for a negative
  step (the start 0 is never above \<^verbatim>\<open>len(seq)\<close>).
\<close>

definition chunk_iter :: "'a list \<Rightarrow> int \<Rightarrow> py_exn + 'a list list" where
  "chunk_iter seq sz =
     (if sz = 0 then Inl (ValueError ''range() arg 3 must not be zero'')
      else if sz < 0 then Inr []
      else Inr (chunk_from seq (nat sz) 0))"

section \<open>The table loaders\<close>

text \<open>
  The tuple a loader builds from a row \<open>r\<close>, for instance
  \<^verbatim>\<open>(to_int(r["chapter"]), to_text(r["chapter_title"]), ...)\<close>, is given by the list of
  its (source field, coercer) pairs; the elements are evaluated from left to right, and
  the first exception ends the evaluation.
\<close>

type_synonym field_binding = "string \<times> (cell \<Rightarrow> py_exn + py_value)"

fun build_row :: "series \<Rightarrow> field_binding list \<Rightarrow> py_exn + py_value list" where
  "build_row r [] = Inr []"
| "build_row r ((c, f) # fs) =
     bind_exn (getitem r c) (\<lambda>x.
     bind_exn (f x) (\<lambda>v.
     bind_exn (build_row r fs) (\<lambda>vs. Inr (v # vs))))"

text \<open>
  \<^verbatim>\<open>rows = []\<close>; \<^verbatim>\<open>for _, r in df.iterrows(): rows.append(tuple of r)\<close>
\<close>

fun map_rows :: "('r \<Rightarrow> py_exn + 'a) \<Rightarrow> 'r list \<Rightarrow> py_exn + 'a list" where
  "map_rows f [] = Inr []"
| "map_rows f (r # rs) =
     bind_exn (f r) (\<lambda>t. bind_exn (map_rows f rs) (\<lambda>ts. Inr (t # ts)))"

definition map_table_rows :: "field_binding list \<Rightarrow> dataframe \<Rightarrow> py_exn + py_value list list" where
  "map_table_rows bindings df = map_rows (\<lambda>r. build_row r bindings) (records df)"

text \<open>\<^verbatim>\<open>for chunk in chunks: execute_values(cur, sql, chunk)\<close>\<close>

fun execute_all ::
  "env \<Rightarrow> insert_stmt \<Rightarrow> py_value list list list \<Rightarrow> world \<Rightarrow> (py_exn + unit) \<times> world"
where
  "execute_all env sql [] w = (Inr (), w)"
| "execute_all env sql (chunk # chunks) w =
     bind_io (db env (ExecuteValues sql chunk) w) (\<lambda>_ w1. execute_all env sql chunks w1)"

text \<open>
  \<^verbatim>\<open>
  with conn.cursor() as cur:
      for chunk in chunk_iter(rows, BATCH_SIZE):
          execute_values(cur, sql, chunk)
      conn.commit()
  \<close>
  The generator runs \<^verbatim>\<open>range\<close> when the loop asks for its first chunk, after the
  cursor is open. Leaving the block closes the cursor, which sends nothing to the server
  and is not recorded.
\<close>

definition insert_rows ::
  "env \<Rightarrow> config \<Rightarrow> insert_stmt \<Rightarrow> py_value list list \<Rightarrow> world \<Rightarrow> (py_exn + unit) \<times> world"
where
  "insert_rows env cfg sql rows w =
     bind_io (db env Cursor w) (\<lambda>_ w1.
       case chunk_iter rows (BATCH_SIZE cfg) of
         Inl e \<Rightarrow> (Inl e, w1)
       | Inr chunks \<Rightarrow>
           bind_io (execute_all env sql chunks w1) (\<lambda>_ w2. db env Commit w2))"

text \<open>
  The three loaders are the same function but for the table's name, the list of required
  columns, the tuple built from a row and the statement:
  \<^verbatim>\<open>
  print(f"\n[table] Reading: {csv_path}")
  df = pd.read_csv(csv_path, dtype=str)
  missing = [c for c in required if c not in df.columns]
  if missing:
      raise ValueError(f"table: missing columns in CSV: {missing}")
  rows = ...
  print(f"[table] Rows prepared: {len(rows)}")
  with conn.cursor() as cur: ...
  print("[table] Insert complete.")
  \<close>
\<close>

definition missing_columns :: "string list \<Rightarrow> dataframe \<Rightarrow> string list" where
  "missing_columns required df = filter (\<lambda>c. c \<notin> set (columns df)) required"

definition missing_message :: "string \<Rightarrow> string list \<Rightarrow> string" where
  "missing_message tag missing = tag @ '': missing columns in CSV: '' @ py_repr_list missing"

definition load_table ::
  "env \<Rightarrow> config \<Rightarrow> string \<Rightarrow> string list \<Rightarrow> field_binding list \<Rightarrow> insert_stmt
     \<Rightarrow> string \<Rightarrow> world \<Rightarrow> (py_exn + unit) \<times> world"
where
  "load_table env cfg tag required bindings sql csv_path w =
     (let w1 = py_print (CHR 0x0A # ''['' @ tag @ ''] Reading: '' @ csv_path) w in
      case read_csv env csv_path of
        Inl e \<Rightarrow> (Inl e, w1)
      | Inr df \<Rightarrow>
          if missing_columns required df \<noteq> [] then
            (Inl (ValueError (missing_message tag (missing_columns required df))), w1)
          else
            (case map_table_rows bindings df of
               Inl e \<Rightarrow> (Inl e, w1)
             | Inr rows \<Rightarrow>
                 bind_io
                   (insert_rows env cfg sql rows
                      (py_print (''['' @ tag @ ''] Rows prepared: '' @ str_nat (length rows)) w1))
                   (\<lambda>_ w3. (Inr (), py_print (''['' @ tag @ ''] Insert complete.'') w3))))"

subsection \<open>\<^verbatim>\<open>load_gdpr_text\<close>\<close>

definition gdpr_text_required :: "string list" where
  "gdpr_text_required =
     [''chapter'', ''chapter_title'', ''article'', ''article_title'', ''sub_article'',
      ''gdpr_text'', ''href'']"

definition gdpr_text_fields :: "env \<Rightarrow> field_binding list" where
  "gdpr_text_fields env =
     [(''chapter'', to_int env),
      (''chapter_title'', to_text),
      (''article'', to_int env),
      (''article_title'', to_text),
      (''sub_article'', to_text),
      (''gdpr_text'', to_text),
      (''href'', to_text)]"

definition gdpr_text_sql :: insert_stmt where
  "gdpr_text_sql =
     InsertInto ''gdpr_text''
       [''chapter'', ''chapter_title'', ''article'', ''article_title'', ''sub_article'',
        ''gdpr_text'', ''href'']"

definition load_gdpr_text :: "env \<Rightarrow> config \<Rightarrow> string \<Rightarrow> world \<Rightarrow> (py_exn + unit) \<times> world" where
  "load_gdpr_text env cfg csv_path w =
     load_table env cfg ''gdpr_text'' gdpr_text_required (gdpr_text_fields env) gdpr_text_sql
       csv_path w"

subsection \<open>\<^verbatim>\<open>load_gdpr_violations_derived\<close>\<close>

definition gdpr_violations_required :: "string list" where
  "gdpr_violations_required =
     [''id'', ''picture'', ''name'', ''price'', ''authority'', ''date'', ''controller'',
      ''article_violated'', ''type'', ''source'', ''summary'', ''Article_no_der'',
      ''Sub_article_no_der'']"

definition gdpr_violations_fields :: "env \<Rightarrow> field_binding list" where
  "gdpr_violations_fields env =
     [(''id'', to_int env),
      (''picture'', to_text),
      (''name'', to_text),
      (''price'', to_numeric),
      (''authority'', to_text),
      (''date'', to_date env),
      (''controller'', to_text),
      (''article_violated'', to_text),
      (''type'', to_text),
      (''source'', to_text),
      (''summary'', to_text),
      (''Article_no_der'', to_int env),
      (''Sub_article_no_der'', to_text)]"

definition gdpr_violations_sql :: insert_stmt where
  "gdpr_violations_sql =
     InsertInto ''gdpr_violations_derived''
       [''id'', ''picture_path'', ''country_name'', ''fine_price'', ''authority'', ''date'',
        ''controller'', ''article_violated'', ''type'', ''source'', ''summary'',
        ''article_no_der'', ''sub_article_no_der'']"

definition load_gdpr_violations_derived ::
  "env \<Rightarrow> config \<Rightarrow> string \<Rightarrow> world \<Rightarrow> (py_exn + unit) \<times> world"
where
  "load_gdpr_violations_derived env cfg csv_path w =
     load_table env cfg ''gdpr_violations_derived'' gdpr_violations_required
       (gdpr_violations_fields env) gdpr_violations_sql csv_path w"

subsection \<open>\<^verbatim>\<open>load_gdpr_dataset\<close>\<close>

definition gdpr_dataset_csv_headers :: "string list" where
  "gdpr_dataset_csv_headers =
     [''Content'', ''Article Number'', ''Article Name'', ''Chapter Number'', ''Chapter Name'',
      ''Article Word Count'', ''Question'', ''Answer'', ''Question Word Count'',
      ''Answer Word Count'']"

definition gdpr_dataset_fields :: "env \<Rightarrow> field_binding list" where
  "gdpr_dataset_fields env =
     [(''Content'', to_text),
      (''Article Number'', to_int env),
      (''Article Name'', to_text),
      (''Chapter Number'', to_int env),
      (''Chapter Name'', to_text),
      (''Article Word Count'', to_int env),
      (''Question'', to_text),
      (''Answer'', to_text),
      (''Question Word Count'', to_int env),
      (''Answer Word Count'', to_int env)]"

definition gdpr_dataset_sql :: insert_stmt where
  "gdpr_dataset_sql =
     InsertInto ''GDPR_dataset''
       [''Content'', ''Article_Number'', ''Article_Name'', ''Chapter_Number'', ''Chapter_Name'',
        ''Article_Word_Count'', ''Question'', ''Answer'', ''Question_Word_Count'',
        ''Answer_Word_Count'']"

definition load_gdpr_dataset :: "env \<Rightarrow> config \<Rightarrow> string \<Rightarrow> world \<Rightarrow> (py_exn + unit) \<times> world" where
  "load_gdpr_dataset env cfg csv_path w =
     load_table env cfg ''GDPR_dataset'' gdpr_dataset_csv_headers (gdpr_dataset_fields env)
       gdpr_dataset_sql csv_path w"

section \<open>\<^verbatim>\<open>main\<close>\<close>

text \<open>
  How the process ends: \<^verbatim>\<open>main\<close> returns (exit status 0), \<^verbatim>\<open>sys.exit(n)\<close> (exit
  status \<open>n\<close>), or an exception leaves \<^verbatim>\<open>main\<close> uncaught (the interpreter prints
  the traceback and exits with status 1).
\<close>

datatype outcome = Returned | SysExit int | Uncaught py_exn

definition exit_status :: "outcome \<Rightarrow> int" where
  "exit_status out = (case out of Returned \<Rightarrow> 0 | SysExit n \<Rightarrow> n | Uncaught e \<Rightarrow> 1)"

text \<open>\<^verbatim>\<open>str(e)\<close>: the message; for a \<^verbatim>\<open>KeyError\<close>, the \<^verbatim>\<open>repr\<close> of the key.\<close>

definition str_exn :: "py_exn \<Rightarrow> string" where
  "str_exn e =
     (case e of
        ValueError m \<Rightarrow> m
      | InvalidOperation m \<Rightarrow> m
      | KeyError k \<Rightarrow> py_repr_str k
      | DatabaseError m \<Rightarrow> m
      | LibraryError m \<Rightarrow> m)"

text \<open>
  \<^verbatim>\<open>
  load_gdpr_text(conn, CSV_GDPR_TEXT)
  load_gdpr_violations_derived(conn, CSV_GDPR_VIOLATIONS)
  load_gdpr_dataset(conn, CSV_GDPR_DATASET)
  \<close>
\<close>

definition run_loaders :: "env \<Rightarrow> config \<Rightarrow> world \<Rightarrow> (py_exn + unit) \<times> world" where
  "run_loaders env cfg w =
     bind_io (load_gdpr_text env cfg (CSV_GDPR_TEXT cfg) w) (\<lambda>_ w1.
     bind_io (load_gdpr_violations_derived env cfg (CSV_GDPR_VIOLATIONS cfg) w1) (\<lambda>_ w2.
     load_gdpr_dataset env cfg (CSV_GDPR_DATASET cfg) w2))"

text \<open>
  The \<^verbatim>\<open>finally\<close> clause once \<^verbatim>\<open>conn\<close> is set: \<^verbatim>\<open>conn.close()\<close>, then
  \<^verbatim>\<open>print("Connection closed.")\<close>. An exception raised by \<^verbatim>\<open>close\<close> replaces
  whatever was on its way out.
\<close>

definition finally_close :: "env \<Rightarrow> outcome \<Rightarrow> world \<Rightarrow> outcome \<times> world" where
  "finally_close env out w =
     (case db env Close w of
        (Inl e, w1) \<Rightarrow> (Uncaught e, w1)
      | (Inr _, w1) \<Rightarrow> (out, py_print ''Connection closed.'' w1))"

text \<open>
  \<^verbatim>\<open>
  def main():
      for path in [CSV_GDPR_TEXT, CSV_GDPR_VIOLATIONS, CSV_GDPR_DATASET]:
          if not os.path.exists(path):
              print(f"ERROR: CSV not found -> {path}")
              sys.exit(1)
      conn = None
      try:
          print(f"Connecting to Postgres ...")
          conn = psycopg2.connect(**DB_PARAMS)
          print("Connected.")
          (the three loaders)
          print("\nAll inserts completed successfully.\n")
      except Exception as e:
          print(f"\nAn error occurred: {e}\n")
          if conn:
              conn.rollback()
      finally:
          if conn:
              conn.close()
          print("Connection closed.")
  \<close>
  When \<^verbatim>\<open>connect\<close> raises, \<^verbatim>\<open>conn\<close> is still \<^verbatim>\<open>None\<close>: the handler and the
  \<^verbatim>\<open>finally\<close> clause skip \<^verbatim>\<open>rollback\<close> and \<^verbatim>\<open>close\<close>. An exception raised by
  \<^verbatim>\<open>rollback\<close> inside the handler is not caught.
\<close>

definition all_files_exist :: "env \<Rightarrow> config \<Rightarrow> bool" where
  "all_files_exist env cfg \<longleftrightarrow>
     path_exists env (CSV_GDPR_TEXT cfg) \<and> path_exists env (CSV_GDPR_VIOLATIONS cfg)
     \<and> path_exists env (CSV_GDPR_DATASET cfg)"

definition connecting_line :: "config \<Rightarrow> string" where
  "connecting_line cfg =
     ''Connecting to Postgres '' @ PGHOST cfg @ '':'' @ PGPORT cfg @ '' db='' @ PGDATABASE cfg
       @ '' ...''"

definition error_line :: "py_exn \<Rightarrow> string" where
  "error_line e = CHR 0x0A # ''An error occurred: '' @ str_exn e @ [CHR 0x0A]"

definition main :: "env \<Rightarrow> config \<Rightarrow> world \<Rightarrow> outcome \<times> world" where
  "main env cfg w =
     (case find (\<lambda>path. \<not> path_exists env path)
             [CSV_GDPR_TEXT cfg, CSV_GDPR_VIOLATIONS cfg, CSV_GDPR_DATASET cfg] of
        Some path \<Rightarrow> (SysExit 1, py_print (''ERROR: CSV not found -> '' @ path) w)
      | None \<Rightarrow>
          (case db env Connect (py_print (connecting_line cfg) w) of
             (Inl e, w1) \<Rightarrow>
               (Returned, py_print ''Connection closed.'' (py_print (error_line e) w1))
           | (Inr _, w1) \<Rightarrow>
               (case run_loaders env cfg (py_print ''Connected.'' w1) of
                  (Inr _, w2) \<Rightarrow>
                    finally_close env Returned
                      (py_print (CHR 0x0A # ''All inserts completed successfully.'' @ [CHR 0x0A]) w2)
                | (Inl e, w2) \<Rightarrow>
                    (case db env Rollback (py_print (error_line e) w2) of
                       (Inl e2, w3) \<Rightarrow> finally_close env (Uncaught e2) w3
                     | (Inr _, w3) \<Rightarrow> finally_close env Returned w3))))"

section \<open>The destination tables\<close>

text \<open>The columns a statement names, in order.\<close>

fun insert_columns :: "insert_stmt \<Rightarrow> string list" where
  "insert_columns (InsertInto t cs) = cs"

text \<open>
  The type of a destination column, and the values it takes: \<^verbatim>\<open>None\<close> (SQL NULL) or
  a value of the column's type.
\<close>

datatype sql_type = SqlInt | SqlText | SqlDecimal | SqlDate

fun conforms :: "py_value \<Rightarrow> sql_type \<Rightarrow> bool" where
  "conforms PyNone t = True"
| "conforms (PyInt n) t = (t = SqlInt)"
| "conforms (PyStr s) t = (t = SqlText)"
| "conforms (PyDecimal d) t = (t = SqlDecimal)"
| "conforms (PyDate d) t = (t = SqlDate)"

text \<open>
  Modelled from the spec: the script creates no table and holds no schema; section 6 of
  the specification lists the columns of the three destination tables with their types,
  in this order.
\<close>

definition gdpr_text_schema :: "(string \<times> sql_type) list" where
  "gdpr_text_schema =
     [(''chapter'', SqlInt), (''chapter_title'', SqlText), (''article'', SqlInt),
      (''article_title'', SqlText), (''sub_article'', SqlText), (''gdpr_text'', SqlText),
      (''href'', SqlText)]"

definition gdpr_violations_schema :: "(string \<times> sql_type) list" where
  "gdpr_violations_schema =
     [(''id'', SqlInt), (''picture_path'', SqlText), (''country_name'', SqlText),
      (''fine_price'', SqlDecimal), (''authority'', SqlText), (''date'', SqlDate),
      (''controller'', SqlText), (''article_violated'', SqlText), (''type'', SqlText),
      (''source'', SqlText), (''summary'', SqlText), (''article_no_der'', SqlInt),
      (''sub_article_no_der'', SqlText)]"

definition gdpr_dataset_schema :: "(string \<times> sql_type) list" where
  "gdpr_dataset_schema =
     [(''Content'', SqlText), (''Article_Number'', SqlInt), (''Article_Name'', SqlText),
      (''Chapter_Number'', SqlInt), (''Chapter_Name'', SqlText),
      (''Article_Word_Count'', SqlInt), (''Question'', SqlText), (''Answer'', SqlText),
      (''Question_Word_Count'', SqlInt), (''Answer_Word_Count'', SqlInt)]"

text \<open>A coercer is typed for a column when it never raises and all it returns conforms.\<close>

definition typed_binding :: "field_binding \<Rightarrow> sql_type \<Rightarrow> bool" where
  "typed_binding b t \<longleftrightarrow> (\<forall>x. \<exists>v. snd b x = Inr v \<and> conforms v t)"

section \<open>Sample data\<close>

text \<open>
  Frames, a configuration and environments for concrete runs: a date parser that knows
  one date and one unparseable text, three files, and a database that never fails
  (\<open>sample_env\<close>), refuses the connection (\<open>sample_env_refused\<close>) or loses it during
  the first insert (\<open>sample_env_lost\<close>); \<open>sample_env_no_controller\<close> reads a
  violations file without its \<^verbatim>\<open>controller\<close> column.
\<close>

definition sample_text_df :: dataframe where
  "sample_text_df =
     \<lparr>columns = [''chapter'', ''chapter_title'', ''article'', ''article_title'', ''sub_article'',
                 ''gdpr_text'', ''href''],
      records =
        [[(''chapter'', Str ''1''), (''chapter_title'', Str ''General provisions''),
          (''article'', Str '' 1 ''), (''article_title'', Str ''Subject-matter''),
          (''sub_article'', NaN), (''gdpr_text'', Str ''This Regulation lays down rules.''),
          (''href'', Str ''http://gdpr-info.eu/art-1-gdpr/'')],
         [(''chapter'', Str ''I''), (''chapter_title'', Str ''General provisions''),
          (''article'', Str ''2''), (''article_title'', Str ''Material scope''),
          (''sub_article'', Str ''1''), (''gdpr_text'', Str '' This Regulation applies. ''),
          (''href'', NaN)]]\<rparr>"

definition sample_violation :: "string \<Rightarrow> string \<Rightarrow> string \<Rightarrow> series" where
  "sample_violation ident amount dt =
     [(''id'', Str ident), (''picture'', Str ''pl.svg''), (''name'', Str ''Poland''),
      (''price'', Str amount), (''authority'', Str ''UODO''), (''date'', Str dt),
      (''controller'', Str ''Private company''), (''article_violated'', Str ''Art. 28 GDPR''),
      (''type'', Str ''Non-cooperation''), (''source'', Str ''https://uodo.gov.pl''),
      (''summary'', NaN), (''Article_no_der'', Str ''28''), (''Sub_article_no_der'', NaN)]"

definition sample_violations_df :: dataframe where
  "sample_violations_df =
     \<lparr>columns = [''id'', ''picture'', ''name'', ''price'', ''authority'', ''date'', ''controller'',
                 ''article_violated'', ''type'', ''source'', ''summary'', ''Article_no_der'',
                 ''Sub_article_no_der''],
      records = [sample_violation ''1'' ''9,380'' ''not-a-date'',
                 sample_violation ''2'' ''1,234.50'' ''2020-01-15'']\<rparr>"

definition sample_dataset_df :: dataframe where
  "sample_dataset_df =
     \<lparr>columns = [''Content'', ''Article Number'', ''Article Name'', ''Chapter Number'',
                 ''Chapter Name'', ''Article Word Count'', ''Question'', ''Answer'',
                 ''Question Word Count'', ''Answer Word Count''],
      records = []\<rparr>"

definition sample_config :: config where
  "sample_config =
     \<lparr>PGHOST = ''localhost'', PGPORT = ''5432'', PGDATABASE = ''capstone'',
      CSV_GDPR_TEXT = ''gdpr_text.csv'',
      CSV_GDPR_VIOLATIONS = ''gdpr_violations.csv'',
      CSV_GDPR_DATASET = ''GDPRdataset.csv'',
      BATCH_SIZE = 5000\<rparr>"

definition sample_env :: env where
  "sample_env =
     \<lparr>int_max_str_digits = 4300,
      to_datetime = (\<lambda>s. if s = ''2020-01-15'' then Inr (Timestamp (Date 2020 1 15) 0)
                         else if s = ''not-a-date'' then Inr NaT
                         else Inl (LibraryError ''unknown'')),
      read_csv = (\<lambda>p. if p = ''gdpr_text.csv'' then Inr sample_text_df
                      else if p = ''gdpr_violations.csv'' then Inr sample_violations_df
                      else if p = ''GDPRdataset.csv'' then Inr sample_dataset_df
                      else Inl (LibraryError ''No such file or directory'')),
      path_exists = (\<lambda>p. p \<in> set [''gdpr_text.csv'', ''gdpr_violations.csv'', ''GDPRdataset.csv'']),
      db_raises = (\<lambda>calls c. None)\<rparr>"

definition empty_world :: world where
  "empty_world = \<lparr>db_trace = [], stdout = []\<rparr>"

definition sample_no_controller_df :: dataframe where
  "sample_no_controller_df =
     \<lparr>columns = remove1 ''controller'' (columns sample_violations_df),
      records = map (filter (\<lambda>p. fst p \<noteq> ''controller'')) (records sample_violations_df)\<rparr>"

definition sample_env_no_controller :: env where
  "sample_env_no_controller =
     sample_env\<lparr>read_csv := (\<lambda>p. if p = ''gdpr_violations.csv'' then Inr sample_no_controller_df
                                  else read_csv sample_env p)\<rparr>"

definition sample_env_refused :: env where
  "sample_env_refused =
     sample_env\<lparr>db_raises := (\<lambda>calls c. if c = Connect then Some ''connection refused'' else None)\<rparr>"

definition sample_env_lost :: env where
  "sample_env_lost =
     sample_env\<lparr>db_raises :=
       (\<lambda>calls c. case c of
           ExecuteValues sql rows \<Rightarrow> Some ''server closed the connection unexpectedly''
         | Rollback \<Rightarrow> Some ''connection already closed''
         | _ \<Rightarrow> None)\<rparr>"

chapter \<open>Properties\<close>

section \<open>Strings\<close>








lemma remove_char_absent: "c \<notin> set s \<Longrightarrow> remove_char c s = s"
  by (simp add: remove_char_def filter_id_conv) metis

lemma set_remove_char: "set (remove_char c s) = set s - {c}"
  by (auto simp: remove_char_def)

lemma remove_char_idem: "remove_char c (remove_char c s) = remove_char c s"
  by (simp add: remove_char_def)

lemma strip_eq_Nil_iff: "strip s = [] \<longleftrightarrow> list_all py_isspace s"
proof
  assume "strip s = []"
  then have all: "\<forall>x\<in>set (dropWhile py_isspace s). py_isspace x"
    by (simp add: strip_def lstrip_def rstrip_def dropWhile_eq_Nil_conv)
  have "dropWhile py_isspace s = []"
  proof (rule ccontr)
    assume ne: "dropWhile py_isspace s \<noteq> []"
    then have "\<not> py_isspace (hd (dropWhile py_isspace s))" by (rule hd_dropWhile)
    moreover have "hd (dropWhile py_isspace s) \<in> set (dropWhile py_isspace s)"
      using ne by simp
    ultimately show False using all by blast
  qed
  then show "list_all py_isspace s"
    by (simp add: dropWhile_eq_Nil_conv list_all_iff)
next
  assume "list_all py_isspace s"
  then show "strip s = []"
    by (auto simp: strip_def lstrip_def rstrip_def list_all_iff dest: set_dropWhileD)
qed

section \<open>The coercers\<close>

lemma to_int_eq:
  "to_int env val =
     (if isna val \<or> strip (str_cell val) = [] then Inr PyNone
      else case py_int (int_max_str_digits env) (strip (str_cell val)) of
             Inl e \<Rightarrow> Inr PyNone
           | Inr n \<Rightarrow> Inr (PyInt n))"
  by (simp add: to_int_def try_except_def bind_exn_def split: sum.splits)

lemma to_numeric_eq:
  "to_numeric val =
     (if isna val \<or> strip (str_cell val) = [] then Inr PyNone
      else case py_Decimal (strip (remove_char (CHR '','') (str_cell val))) of
             Inl e \<Rightarrow> Inr PyNone
           | Inr d \<Rightarrow> Inr (PyDecimal d))"
  by (simp add: to_numeric_def try_except_def bind_exn_def split: sum.splits)

lemma to_date_eq:
  "to_date env val =
     (if isna val \<or> strip (str_cell val) = [] then Inr PyNone
      else case to_datetime env (str_cell val) of
             Inl e \<Rightarrow> Inr PyNone
           | Inr NaT \<Rightarrow> Inr PyNone
           | Inr (Timestamp d t) \<Rightarrow> Inr (PyDate d))"
  by (simp add: to_date_def try_except_def bind_exn_def split: sum.splits timestamp.splits)

text \<open>
  Claim C1. For every cell (a string or NaN) and every environment, each of the four
  coercers returns a value: none of them raises. When the parse inside fails (\<^verbatim>\<open>int\<close>,
  \<^verbatim>\<open>Decimal\<close> or \<^verbatim>\<open>pd.to_datetime\<close> raises, or the date parser gives NaT),
  \<^verbatim>\<open>to_int\<close>, \<^verbatim>\<open>to_numeric\<close> and \<^verbatim>\<open>to_date\<close> return \<^verbatim>\<open>None\<close>.
\<close>

theorem coercers_never_raise:
  "(\<exists>v. to_int env val = Inr v) \<and> (\<exists>v. to_text val = Inr v)
   \<and> (\<exists>v. to_numeric val = Inr v) \<and> (\<exists>v. to_date env val = Inr v)
   \<and> (\<forall>e. py_int (int_max_str_digits env) (strip (str_cell val)) = Inl e
          \<longrightarrow> to_int env val = Inr PyNone)
   \<and> (\<forall>e. py_Decimal (strip (remove_char (CHR '','') (str_cell val))) = Inl e
          \<longrightarrow> to_numeric val = Inr PyNone)
   \<and> (\<forall>e. to_datetime env (str_cell val) = Inl e \<longrightarrow> to_date env val = Inr PyNone)
   \<and> (to_datetime env (str_cell val) = Inr NaT \<longrightarrow> to_date env val = Inr PyNone)"
proof -
  have "\<exists>v. to_int env val = Inr v"
    by (simp add: to_int_eq split: sum.splits)
  moreover have "\<exists>v. to_text val = Inr v"
    by (simp add: to_text_def)
  moreover have "\<exists>v. to_numeric val = Inr v"
    by (simp add: to_numeric_eq split: sum.splits)
  moreover have "\<exists>v. to_date env val = Inr v"
    by (simp add: to_date_eq split: sum.splits timestamp.splits)
  moreover have "\<forall>e. py_int (int_max_str_digits env) (strip (str_cell val)) = Inl e
                   \<longrightarrow> to_int env val = Inr PyNone"
    by (auto simp: to_int_eq)
  moreover have "\<forall>e. py_Decimal (strip (remove_char (CHR '','') (str_cell val))) = Inl e
                   \<longrightarrow> to_numeric val = Inr PyNone"
    by (auto simp: to_numeric_eq)
  moreover have "\<forall>e. to_datetime env (str_cell val) = Inl e \<longrightarrow> to_date env val = Inr PyNone"
    by (auto simp: to_date_eq)
  moreover have "to_datetime env (str_cell val) = Inr NaT \<longrightarrow> to_date env val = Inr PyNone"
    by (simp add: to_date_eq)
  ultimately show ?thesis by blast
qed

theorem coercers_never_raise_witness:
  "py_int (int_max_str_digits sample_env) (strip (str_cell (Str ''12.5'')))
     = Inl (ValueError ''invalid literal for int() with base 10'')
   \<and> to_int sample_env (Str ''12.5'') = Inr PyNone
   \<and> py_Decimal (strip (remove_char (CHR '','') (str_cell (Str ''12.5x''))))
     = Inl (InvalidOperation ''ConversionSyntax'')
   \<and> to_numeric (Str ''12.5x'') = Inr PyNone
   \<and> to_datetime sample_env (str_cell (Str ''12.5'')) = Inl (LibraryError ''unknown'')
   \<and> to_date sample_env (Str ''12.5'') = Inr PyNone
   \<and> to_datetime sample_env (str_cell (Str ''not-a-date'')) = Inr NaT
   \<and> to_date sample_env (Str ''not-a-date'') = Inr PyNone"
proof -
  have 1: "py_int (int_max_str_digits sample_env) (strip (str_cell (Str ''12.5'')))
             = Inl (ValueError ''invalid literal for int() with base 10'')"
    by code_simp
  have 2: "py_Decimal (strip (remove_char (CHR '','') (str_cell (Str ''12.5x''))))
             = Inl (InvalidOperation ''ConversionSyntax'')"
    by code_simp
  have 3: "to_datetime sample_env (str_cell (Str ''12.5'')) = Inl (LibraryError ''unknown'')"
    by code_simp
  have 4: "to_datetime sample_env (str_cell (Str ''not-a-date'')) = Inr NaT"
    by code_simp
  from coercers_never_raise [of sample_env "Str ''12.5''"] 1 3
  have "to_int sample_env (Str ''12.5'') = Inr PyNone"
    and "to_date sample_env (Str ''12.5'') = Inr PyNone"
    by blast+
  moreover from coercers_never_raise [of sample_env "Str ''12.5x''"] 2
  have "to_numeric (Str ''12.5x'') = Inr PyNone" by blast
  moreover from coercers_never_raise [of sample_env "Str ''not-a-date''"] 4
  have "to_date sample_env (Str ''not-a-date'') = Inr PyNone" by blast
  ultimately show ?thesis using 1 2 3 4 by blast
qed

text \<open>
  Claim C8. For a blank or whitespace-only string, and for a missing cell, \<^verbatim>\<open>to_int\<close>,
  \<^verbatim>\<open>to_numeric\<close> and \<^verbatim>\<open>to_date\<close> return \<^verbatim>\<open>None\<close> and \<^verbatim>\<open>to_text\<close> returns
  the empty string; on every string \<^verbatim>\<open>to_text\<close> returns the trimmed string, never
  \<^verbatim>\<open>None\<close>.
\<close>

theorem blank_inputs:
  "(list_all py_isspace s \<longrightarrow>
      to_int env (Str s) = Inr PyNone \<and> to_numeric (Str s) = Inr PyNone
      \<and> to_date env (Str s) = Inr PyNone \<and> to_text (Str s) = Inr (PyStr ''''))
   \<and> to_int env NaN = Inr PyNone \<and> to_numeric NaN = Inr PyNone
   \<and> to_date env NaN = Inr PyNone \<and> to_text NaN = Inr (PyStr '''')
   \<and> to_text (Str s) = Inr (PyStr (strip s))
   \<and> to_text val \<noteq> Inr PyNone \<and> (\<forall>e. to_text val \<noteq> Inl e)"
proof -
  have "to_int env (Str s) = Inr PyNone \<and> to_numeric (Str s) = Inr PyNone
        \<and> to_date env (Str s) = Inr PyNone \<and> to_text (Str s) = Inr (PyStr '''')"
    if "list_all py_isspace s"
  proof -
    from that have "strip s = []" by (simp add: strip_eq_Nil_iff)
    then show ?thesis by (simp add: to_int_eq to_numeric_eq to_date_eq to_text_def)
  qed
  moreover have "to_int env NaN = Inr PyNone" "to_numeric NaN = Inr PyNone"
    "to_date env NaN = Inr PyNone" "to_text NaN = Inr (PyStr '''')"
    by (simp_all add: to_int_eq to_numeric_eq to_date_eq to_text_def)
  moreover have "to_text (Str s) = Inr (PyStr (strip s))"
    by (simp add: to_text_def)
  moreover have "to_text val \<noteq> Inr PyNone" "\<forall>e. to_text val \<noteq> Inl e"
    by (simp_all add: to_text_def)
  ultimately show ?thesis by blast
qed

theorem blank_inputs_witness:
  "list_all py_isspace [CHR 0x20, CHR 0x09, CHR 0x0A]
   \<and> to_int sample_env (Str [CHR 0x20, CHR 0x09, CHR 0x0A]) = Inr PyNone
   \<and> to_numeric (Str [CHR 0x20, CHR 0x09, CHR 0x0A]) = Inr PyNone
   \<and> to_date sample_env (Str [CHR 0x20, CHR 0x09, CHR 0x0A]) = Inr PyNone
   \<and> to_text (Str [CHR 0x20, CHR 0x09, CHR 0x0A]) = Inr (PyStr '''')"
proof -
  have ws: "list_all py_isspace [CHR 0x20, CHR 0x09, CHR 0x0A]"
    by code_simp
  with blank_inputs [of "[CHR 0x20, CHR 0x09, CHR 0x0A]" sample_env] show ?thesis
    by blast
qed

lemma comma_not_space: "\<not> py_isspace (CHR '','')"
  by (simp add: py_isspace_def)

lemma py_Decimal_Nil: "py_Decimal [] = Inl (InvalidOperation ''ConversionSyntax'')"
  by code_simp

lemma to_numeric_ignores_commas_aux:
  "to_numeric (Str s) = to_numeric (Str (remove_char (CHR '','') s))"
proof (cases "strip s = []")
  case True
  then have "list_all py_isspace s" by (simp add: strip_eq_Nil_iff)
  then have "CHR '','' \<notin> set s" using comma_not_space by (auto simp: list_all_iff)
  then show ?thesis by (simp add: remove_char_absent)
next
  case False
  show ?thesis
  proof (cases "strip (remove_char (CHR '','') s) = []")
    case True
    with False show ?thesis by (simp add: to_numeric_eq py_Decimal_Nil)
  next
    case False
    with \<open>strip s \<noteq> []\<close> show ?thesis by (simp add: to_numeric_eq remove_char_idem)
  qed
qed

lemma py_isdigit_cases:
  "py_isdigit c \<longleftrightarrow>
     c = CHR ''0'' \<or> c = CHR ''1'' \<or> c = CHR ''2'' \<or> c = CHR ''3'' \<or> c = CHR ''4'' \<or>
     c = CHR ''5'' \<or> c = CHR ''6'' \<or> c = CHR ''7'' \<or> c = CHR ''8'' \<or> c = CHR ''9''"
  by (simp add: py_isdigit_def)

lemma digit_facts:
  assumes "py_isdigit c"
  shows "\<not> py_isspace c" "c \<noteq> CHR ''_''" "c \<noteq> CHR ''+''" "c \<noteq> CHR ''-''"
    "c \<noteq> CHR '',''" "c \<noteq> CHR ''.''" "py_lower c = c" "0 \<le> digit_val c" "digit_val c \<le> 9"
proof -
  note c = assms [unfolded py_isdigit_cases]
  show "\<not> py_isspace c" using c by (elim disjE) (simp_all add: py_isspace_def)
  show "c \<noteq> CHR ''_''" using c by (elim disjE) simp_all
  show "c \<noteq> CHR ''+''" using c by (elim disjE) simp_all
  show "c \<noteq> CHR ''-''" using c by (elim disjE) simp_all
  show "c \<noteq> CHR '',''" using c by (elim disjE) simp_all
  show "c \<noteq> CHR ''.''" using c by (elim disjE) simp_all
  show "py_lower c = c" using c by (elim disjE) (simp_all add: py_lower_def)
  show "0 \<le> digit_val c" using c by (elim disjE) (simp_all add: digit_val_def)
  show "digit_val c \<le> 9" using c by (elim disjE) (simp_all add: digit_val_def)
qed


lemma digits_val_snoc: "digits_val (ds @ [c]) = 10 * digits_val ds + digit_val c"
  by (simp add: digits_val_def)


lemma digits_val_nonneg: "list_all py_isdigit ds \<Longrightarrow> 0 \<le> digits_val ds"
  by (induction ds rule: rev_induct) (auto simp: digits_val_snoc digit_facts digits_val_def)



















text \<open>
  Claim C9. \<^verbatim>\<open>to_numeric\<close> removes every comma, wherever it stands, before parsing:
  its result on a string is its result on the string without its commas. So
  \<^verbatim>\<open>"1,2"\<close>, whose comma is no thousands separator, gives the decimal 12 and not
  \<^verbatim>\<open>None\<close>.
\<close>

theorem to_numeric_removes_every_comma:
  "to_numeric (Str s) = to_numeric (Str (remove_char (CHR '','') s))
   \<and> CHR '','' \<notin> set (remove_char (CHR '','') s)
   \<and> to_numeric (Str ''1,2'') = Inr (PyDecimal (Finite False 12 0))
   \<and> to_numeric (Str '',1,,2,'') = Inr (PyDecimal (Finite False 12 0))"
proof -
  have "to_numeric (Str ''1,2'') = Inr (PyDecimal (Finite False 12 0))"
    "to_numeric (Str '',1,,2,'') = Inr (PyDecimal (Finite False 12 0))"
    by code_simp+
  moreover have "CHR '','' \<notin> set (remove_char (CHR '','') s)"
    by (simp add: set_remove_char)
  ultimately show ?thesis using to_numeric_ignores_commas_aux [of s] by blast
qed

section \<open>The batcher\<close>

lemma ceil_div_step:
  fixes m n :: nat
  assumes "0 < n" "0 < m"
  shows "(m + (n - 1)) div n = Suc ((m - n + (n - 1)) div n)"
proof (cases "n \<le> m")
  case True
  then have "m + (n - 1) = (m - n + (n - 1)) + n" by simp
  then have "(m + (n - 1)) div n = ((m - n + (n - 1)) + n) div n" by simp
  also have "\<dots> = Suc ((m - n + (n - 1)) div n)"
    using assms(1) by (subst div_add_self2) simp_all
  finally show ?thesis .
next
  case False
  then have "m - n + (n - 1) < n" "n \<le> m + (n - 1)" "m + (n - 1) < n + n"
    using assms by simp_all
  then have "(m - n + (n - 1)) div n = 0" "(m + (n - 1)) div n = 1"
    by (simp_all add: div_nat_eqI)
  then show ?thesis by simp
qed

lemma ceiling_nat_div:
  fixes L n :: nat
  assumes "0 < n"
  shows "\<lceil>real L / real n\<rceil> = int ((L + (n - 1)) div n)"
proof (rule ceiling_unique)
  let ?q = "(L + (n - 1)) div n"
  have "?q * n + (L + (n - 1)) mod n = L + (n - 1)" by simp
  moreover have "(L + (n - 1)) mod n \<le> n - 1"
  proof -
    have "(L + (n - 1)) mod n < n" using assms by simp
    then show ?thesis by linarith
  qed
  ultimately have "L \<le> ?q * n" by linarith
  then have "real L \<le> real ?q * real n" by (metis of_nat_le_iff of_nat_mult)
  then show "real L / real n \<le> of_int (int ?q)"
    using assms by (simp add: pos_divide_le_eq)
  have "?q * n \<le> L + (n - 1)" by simp
  then have "?q * n < L + n" using assms by linarith
  then have "real (?q * n) < real (L + n)" by (simp only: of_nat_less_iff)
  then have "(real ?q - 1) * real n < real L" by (simp add: algebra_simps)
  then show "of_int (int ?q) - 1 < real L / real n"
    using assms by (simp add: pos_less_divide_eq)
qed

lemma chunk_from_concat: "0 < n \<Longrightarrow> concat (chunk_from seq n i) = drop i seq"
proof (induction seq n i rule: chunk_from.induct)
  case (1 seq n i)
  show ?case
  proof (cases "i < length seq")
    case True
    with 1 have "concat (chunk_from seq n i) = take n (drop i seq) @ drop (i + n) seq"
      by (subst chunk_from.simps) simp
    also have "\<dots> = drop i seq"
      by (simp add: add.commute[of i n] flip: drop_drop)
    finally show ?thesis .
  next
    case False
    then show ?thesis by (subst chunk_from.simps) simp
  qed
qed

lemma chunk_from_length:
  "0 < n \<Longrightarrow> length (chunk_from seq n i) = (length seq - i + (n - 1)) div n"
proof (induction seq n i rule: chunk_from.induct)
  case (1 seq n i)
  show ?case
  proof (cases "i < length seq")
    case True
    with 1 have "length (chunk_from seq n i) = Suc ((length seq - (i + n) + (n - 1)) div n)"
      by (subst chunk_from.simps) simp
    also have "\<dots> = Suc ((length seq - i - n + (n - 1)) div n)" by simp
    also have "\<dots> = (length seq - i + (n - 1)) div n"
      using ceil_div_step[of n "length seq - i"] True 1(2) by simp
    finally show ?thesis .
  next
    case False
    with 1(2) show ?thesis by (subst chunk_from.simps) simp
  qed
qed

lemma chunk_from_nth:
  "0 < n \<Longrightarrow> k < length (chunk_from seq n i) \<Longrightarrow>
     chunk_from seq n i ! k = take n (drop (i + k * n) seq)"
proof (induction seq n i arbitrary: k rule: chunk_from.induct)
  case (1 seq n i)
  show ?case
  proof (cases "i < length seq")
    case True
    then have unf: "chunk_from seq n i = take n (drop i seq) # chunk_from seq n (i + n)"
      using 1(2) by (subst chunk_from.simps) simp
    show ?thesis
    proof (cases k)
      case 0
      then show ?thesis by (simp add: unf)
    next
      case (Suc j)
      with 1(3) unf have "j < length (chunk_from seq n (i + n))" by simp
      with 1(1)[of j] True 1(2)
      have "chunk_from seq n (i + n) ! j = take n (drop (i + n + j * n) seq)"
        by simp
      then show ?thesis by (simp add: unf Suc add.assoc)
    qed
  next
    case False
    with 1(3) show ?thesis by (subst (asm) chunk_from.simps) simp
  qed
qed

lemma chunk_from_slices:
  assumes "0 < n"
  shows "k < length (chunk_from seq n 0) \<longleftrightarrow> k * n < length seq"
proof -
  have "k < (length seq + (n - 1)) div n \<longleftrightarrow> k * n < length seq"
  proof -
    have "k < (length seq + (n - 1)) div n \<longleftrightarrow> Suc k \<le> (length seq + (n - 1)) div n" by auto
    also have "\<dots> \<longleftrightarrow> Suc k * n \<le> length seq + (n - 1)"
      using assms by (simp only: less_eq_div_iff_mult_less_eq)
    also have "\<dots> \<longleftrightarrow> k * n < length seq" using assms by auto
    finally show ?thesis .
  qed
  then show ?thesis using assms by (simp add: chunk_from_length)
qed

text \<open>
  Claim C3. For every finite sequence \<open>seq\<close> of length \<open>L\<close> and every chunk size
  \<open>n \<ge> 1\<close>, \<^verbatim>\<open>chunk_iter(seq, n)\<close> yields exactly \<open>\<lceil>L / n\<rceil>\<close> chunks; the
  \<open>k\<close>-th chunk is the slice of \<open>seq\<close> from \<open>k * n\<close> of length at most \<open>n\<close>
  (contiguous, not overlapping), their concatenation in yield order is \<open>seq\<close>, every
  chunk but the last has exactly \<open>n\<close> elements, and the last holds the remainder
  (between 1 and \<open>n\<close> elements).
\<close>

theorem chunk_iter_partition:
  assumes "1 \<le> n"
  shows "\<exists>cs. chunk_iter seq n = Inr cs
           \<and> int (length cs) = \<lceil>real (length seq) / real_of_int n\<rceil>
           \<and> concat cs = seq
           \<and> (\<forall>k. k < length cs \<longrightarrow> cs ! k = take (nat n) (drop (k * nat n) seq))
           \<and> (\<forall>k. Suc k < length cs \<longrightarrow> length (cs ! k) = nat n)
           \<and> (cs \<noteq> [] \<longrightarrow> length (last cs) = length seq - (length cs - 1) * nat n
                          \<and> 1 \<le> length (last cs) \<and> length (last cs) \<le> nat n)"
proof -
  define m where "m = nat n"
  define cs where "cs = chunk_from seq m 0"
  have m: "0 < m" "real_of_int n = real m" using assms by (simp_all add: m_def)
  have run: "chunk_iter seq n = Inr cs"
    using assms by (simp add: chunk_iter_def cs_def m_def)
  have len: "int (length cs) = \<lceil>real (length seq) / real_of_int n\<rceil>"
    using m by (simp add: cs_def chunk_from_length ceiling_nat_div)
  have cat: "concat cs = seq"
    using m by (simp add: cs_def chunk_from_concat)
  have nth: "cs ! k = take m (drop (k * m) seq)" if "k < length cs" for k
    using that m chunk_from_nth[of m k seq 0] by (simp add: cs_def)
  have full: "length (cs ! k) = m" if "Suc k < length cs" for k
  proof -
    from that have "Suc k * m < length seq"
      using chunk_from_slices[OF m(1), of "Suc k" seq] by (simp add: cs_def)
    then have "k * m + m \<le> length seq" by simp
    moreover have "cs ! k = take m (drop (k * m) seq)" using that by (simp add: nth)
    ultimately show ?thesis by simp
  qed
  have lst: "length (last cs) = length seq - (length cs - 1) * m
             \<and> 1 \<le> length (last cs) \<and> length (last cs) \<le> m" if "cs \<noteq> []"
  proof -
    let ?k = "length cs - 1"
    from that have k: "?k < length cs" by simp
    then have "last cs = take m (drop (?k * m) seq)"
      using that by (simp add: last_conv_nth nth)
    moreover have "?k * m < length seq"
      using chunk_from_slices[OF m(1), of ?k seq] k by (simp add: cs_def)
    moreover have "\<not> length cs * m < length seq"
      using chunk_from_slices[OF m(1), of "length cs" seq] by (simp add: cs_def)
    moreover have "length cs * m = ?k * m + m"
      using that by (cases cs) simp_all
    ultimately show ?thesis by auto
  qed
  show ?thesis
    using run len cat nth full lst unfolding m_def by blast
qed

theorem chunk_iter_partition_witness:
  "(1::int) \<le> 2
   \<and> chunk_iter [10, 20, 30, 40, 50 :: nat] 2 = Inr [[10, 20], [30, 40], [50]]
   \<and> int (length [[10, 20], [30, 40], [50 :: nat]]) = \<lceil>real (length [10, 20, 30, 40, 50 :: nat]) / real_of_int 2\<rceil>
   \<and> concat [[10, 20], [30, 40], [50 :: nat]] = [10, 20, 30, 40, 50]"
  using chunk_iter_partition [of 2 "[10, 20, 30, 40, 50 :: nat]"]
  by (simp add: chunk_iter_def chunk_from.simps)

section \<open>Row mapping\<close>

lemma typed_coercers:
  "typed_binding (c, to_int env) SqlInt" "typed_binding (c, to_text) SqlText"
  "typed_binding (c, to_numeric) SqlDecimal" "typed_binding (c, to_date env) SqlDate"
  by (auto simp: typed_binding_def to_int_eq to_text_def to_numeric_eq to_date_eq
           split: sum.splits timestamp.splits)

lemma typed_tables:
  "list_all2 typed_binding (gdpr_text_fields env) (map snd gdpr_text_schema)"
  "list_all2 typed_binding (gdpr_violations_fields env) (map snd gdpr_violations_schema)"
  "list_all2 typed_binding (gdpr_dataset_fields env) (map snd gdpr_dataset_schema)"
  by (simp_all add: gdpr_text_fields_def gdpr_text_schema_def gdpr_violations_fields_def
        gdpr_violations_schema_def gdpr_dataset_fields_def gdpr_dataset_schema_def typed_coercers)

lemma build_row_typed:
  assumes "list_all2 typed_binding b ts" "set (map fst b) \<subseteq> set (map fst r)"
  shows "\<exists>row. build_row r b = Inr row \<and> length row = length b
           \<and> (\<forall>j<length b. \<exists>x. map_of r (fst (b ! j)) = Some x
                  \<and> snd (b ! j) x = Inr (row ! j) \<and> conforms (row ! j) (ts ! j))"
  using assms
proof (induction b ts rule: list_all2_induct)
  case Nil
  then show ?case by simp
next
  case (Cons p b t ts)
  obtain c f where p: "p = (c, f)" by (cases p)
  from Cons.prems have "c \<in> fst ` set r" by (simp add: p)
  then obtain x where x: "map_of r c = Some x"
    by (metis map_of_eq_None_iff not_Some_eq)
  from Cons.hyps(1) obtain v where v: "f x = Inr v" "conforms v t"
    by (auto simp: typed_binding_def p)
  from Cons.IH Cons.prems obtain row where row: "build_row r b = Inr row" "length row = length b"
    "\<forall>j<length b. \<exists>x. map_of r (fst (b ! j)) = Some x
         \<and> snd (b ! j) x = Inr (row ! j) \<and> conforms (row ! j) (ts ! j)"
    by auto
  have "build_row r (p # b) = Inr (v # row)"
    by (simp add: p getitem_def x v row bind_exn_def)
  moreover have "\<exists>y. map_of r (fst ((p # b) ! j)) = Some y
         \<and> snd ((p # b) ! j) y = Inr ((v # row) ! j) \<and> conforms ((v # row) ! j) ((t # ts) ! j)"
    if "j < length (p # b)" for j
  proof (cases j)
    case 0
    then show ?thesis using x v by (simp add: p)
  next
    case (Suc k)
    with that row(3) show ?thesis by simp
  qed
  ultimately show ?case using row(2) by auto
qed

lemma map_rows_Inr_iff:
  "map_rows f rs = Inr rows \<longleftrightarrow>
     length rows = length rs \<and> (\<forall>i<length rs. f (rs ! i) = Inr (rows ! i))"
proof (induction rs arbitrary: rows)
  case Nil
  then show ?case by auto
next
  case (Cons r rs)
  show ?case
  proof (cases "f r")
    case (Inl e)
    then show ?thesis by (auto simp: bind_exn_def)
  next
    case (Inr t)
    show ?thesis
    proof (cases "map_rows f rs")
      case (Inl e)
      have "\<not> (length rows = length (r # rs) \<and> (\<forall>i<length (r # rs). f ((r # rs) ! i) = Inr (rows ! i)))"
      proof
        assume a: "length rows = length (r # rs) \<and> (\<forall>i<length (r # rs). f ((r # rs) ! i) = Inr (rows ! i))"
        then obtain t' ts where rows: "rows = t' # ts" by (cases rows) auto
        with a have "length ts = length rs \<and> (\<forall>i<length rs. f (rs ! i) = Inr (ts ! i))"
          by fastforce
        then have "map_rows f rs = Inr ts" by (simp add: Cons.IH)
        with Inl show False by simp
      qed
      then show ?thesis using Inl \<open>f r = Inr t\<close> by (simp add: bind_exn_def)
    next
      case (Inr ts)
      then have ts: "length ts = length rs" "\<forall>i<length rs. f (rs ! i) = Inr (ts ! i)"
        using Cons.IH [of ts] by simp_all
      have m: "map_rows f (r # rs) = Inr (t # ts)"
        using Inr \<open>f r = Inr t\<close> by (simp add: bind_exn_def)
      show ?thesis
      proof
        assume "map_rows f (r # rs) = Inr rows"
        with m have "rows = t # ts" by simp
        then show "length rows = length (r # rs) \<and> (\<forall>i<length (r # rs). f ((r # rs) ! i) = Inr (rows ! i))"
          using ts \<open>f r = Inr t\<close> by (auto simp: nth_Cons split: nat.splits)
      next
        assume a: "length rows = length (r # rs) \<and> (\<forall>i<length (r # rs). f ((r # rs) ! i) = Inr (rows ! i))"
        then obtain t' ts' where rows: "rows = t' # ts'" by (cases rows) auto
        with a have "f r = Inr t'" by auto
        with \<open>f r = Inr t\<close> have "t' = t" by simp
        from a rows have "length ts' = length rs \<and> (\<forall>i<length rs. f (rs ! i) = Inr (ts' ! i))"
          by fastforce
        then have "map_rows f rs = Inr ts'" by (simp add: Cons.IH)
        with Inr have "ts' = ts" by simp
        with m rows \<open>t' = t\<close> show "map_rows f (r # rs) = Inr rows" by simp
      qed
    qed
  qed
qed

lemma map_rows_total:
  assumes "\<forall>r\<in>set rs. \<exists>t. f r = Inr t"
  shows "\<exists>rows. map_rows f rs = Inr rows"
  using assms by (induction rs) (auto simp: bind_exn_def)

lemma missing_columns_Nil: "missing_columns required df = [] \<longleftrightarrow> set required \<subseteq> set (columns df)"
  by (auto simp: missing_columns_def filter_empty_conv)

lemma table_bindings:
  "map fst (gdpr_text_fields env) = gdpr_text_required"
  "map fst (gdpr_violations_fields env) = gdpr_violations_required"
  "map fst (gdpr_dataset_fields env) = gdpr_dataset_csv_headers"
  "insert_columns gdpr_text_sql = map fst gdpr_text_schema"
  "insert_columns gdpr_violations_sql = map fst gdpr_violations_schema"
  "insert_columns gdpr_dataset_sql = map fst gdpr_dataset_schema"
  by (simp_all add: gdpr_text_fields_def gdpr_text_required_def gdpr_text_sql_def
        gdpr_text_schema_def gdpr_violations_fields_def gdpr_violations_required_def
        gdpr_violations_sql_def gdpr_violations_schema_def gdpr_dataset_fields_def
        gdpr_dataset_csv_headers_def gdpr_dataset_sql_def gdpr_dataset_schema_def)

lemma row_mapping_generic:
  assumes typed: "list_all2 typed_binding b ts"
    and wf: "wf_dataframe df"
    and hdr: "set (map fst b) \<subseteq> set (columns df)"
  shows "\<exists>rows. map_table_rows b df = Inr rows
           \<and> length rows = length (records df)
           \<and> (\<forall>i<length rows.
                build_row (records df ! i) b = Inr (rows ! i)
                \<and> length (rows ! i) = length b
                \<and> (\<forall>j<length b. \<exists>x. map_of (records df ! i) (fst (b ! j)) = Some x
                       \<and> snd (b ! j) x = Inr (rows ! i ! j)
                       \<and> conforms (rows ! i ! j) (ts ! j)))
           \<and> (\<forall>i r'. i < length rows \<and> map fst r' = columns df \<longrightarrow>
                (\<exists>row'. build_row r' b = Inr row'
                   \<and> map_table_rows b (df\<lparr>records := (records df)[i := r']\<rparr>)
                       = Inr (rows[i := row'])))"
proof -
  let ?f = "\<lambda>r. build_row r b"
  have row: "\<exists>row. ?f r = Inr row \<and> length row = length b
           \<and> (\<forall>j<length b. \<exists>x. map_of r (fst (b ! j)) = Some x
                  \<and> snd (b ! j) x = Inr (row ! j) \<and> conforms (row ! j) (ts ! j))"
    if "map fst r = columns df" for r
    using typed hdr that by (intro build_row_typed) simp_all
  have cols: "map fst r = columns df" if "r \<in> set (records df)" for r
    using wf that by (simp add: wf_dataframe_def list_all_iff)
  have row_ex: "\<exists>t. ?f r = Inr t" if "r \<in> set (records df)" for r
    using row [OF cols [OF that]] by (elim exE conjE) (rule exI)
  have "\<forall>r\<in>set (records df). \<exists>t. ?f r = Inr t"
    by (intro ballI row_ex)
  from map_rows_total [of "records df" ?f, OF this]
  obtain rows where rows: "map_rows ?f (records df) = Inr rows"
    by (elim exE)
  then have len: "length rows = length (records df)"
    and each: "\<forall>i<length (records df). ?f (records df ! i) = Inr (rows ! i)"
    by (simp_all add: map_rows_Inr_iff)
  have per: "build_row (records df ! i) b = Inr (rows ! i)
                \<and> length (rows ! i) = length b
                \<and> (\<forall>j<length b. \<exists>x. map_of (records df ! i) (fst (b ! j)) = Some x
                       \<and> snd (b ! j) x = Inr (rows ! i ! j)
                       \<and> conforms (rows ! i ! j) (ts ! j))"
    if "i < length rows" for i
  proof -
    from that len have i: "i < length (records df)" by simp
    then have "records df ! i \<in> set (records df)" by simp
    from row [OF cols [OF this]] obtain t where t: "?f (records df ! i) = Inr t"
      "length t = length b"
      "\<forall>j<length b. \<exists>x. map_of (records df ! i) (fst (b ! j)) = Some x
                  \<and> snd (b ! j) x = Inr (t ! j) \<and> conforms (t ! j) (ts ! j)"
      by (elim exE conjE)
    moreover from each i t(1) have "rows ! i = t" by simp
    ultimately show ?thesis by simp
  qed
  have upd: "\<exists>row'. build_row r' b = Inr row'
                   \<and> map_table_rows b (df\<lparr>records := (records df)[i := r']\<rparr>)
                       = Inr (rows[i := row'])"
    if "i < length rows \<and> map fst r' = columns df" for i r'
  proof -
    from that have "map fst r' = columns df" by simp
    from row [OF this] obtain row' where row': "build_row r' b = Inr row'"
      by (elim exE conjE)
    have "map_rows ?f ((records df)[i := r']) = Inr (rows[i := row'])"
      unfolding map_rows_Inr_iff using len each row' that by (auto simp: nth_list_update)
    then show ?thesis using row' by (simp add: map_table_rows_def)
  qed
  have per_all: "\<forall>i<length rows.
                build_row (records df ! i) b = Inr (rows ! i)
                \<and> length (rows ! i) = length b
                \<and> (\<forall>j<length b. \<exists>x. map_of (records df ! i) (fst (b ! j)) = Some x
                       \<and> snd (b ! j) x = Inr (rows ! i ! j)
                       \<and> conforms (rows ! i ! j) (ts ! j))"
    by (intro allI impI per)
  have upd_all: "\<forall>i r'. i < length rows \<and> map fst r' = columns df \<longrightarrow>
                (\<exists>row'. build_row r' b = Inr row'
                   \<and> map_table_rows b (df\<lparr>records := (records df)[i := r']\<rparr>)
                       = Inr (rows[i := row']))"
    by (intro allI impI upd)
  have rows': "map_table_rows b df = Inr rows"
    using rows by (simp add: map_table_rows_def)
  show ?thesis
    by (rule exI [of _ rows]) (intro conjI rows' len per_all upd_all)
qed

text \<open>
  Claim C2. For each of the three tables and every well-formed frame whose header has all
  the required fields, the row-mapping step returns one tuple per record, in the order of
  the records: the \<open>i\<close>-th tuple is built from the \<open>i\<close>-th record alone. A tuple has
  one position per destination column; position \<open>j\<close> is what the \<open>j\<close>-th coercer
  returns on the record's \<open>j\<close>-th source field, and conforms to the type of the
  \<open>j\<close>-th destination column. Replacing one record by any other changes that record's
  tuple and no other.
\<close>

theorem row_mapping_per_record:
  assumes tbl: "(required, bindings, sql, schema) \<in>
       {(gdpr_text_required, gdpr_text_fields env, gdpr_text_sql, gdpr_text_schema),
        (gdpr_violations_required, gdpr_violations_fields env, gdpr_violations_sql,
           gdpr_violations_schema),
        (gdpr_dataset_csv_headers, gdpr_dataset_fields env, gdpr_dataset_sql,
           gdpr_dataset_schema)}"
    and wf: "wf_dataframe df"
    and hdr: "missing_columns required df = []"
  shows "\<exists>rows. map_table_rows bindings df = Inr rows
           \<and> length rows = length (records df)
           \<and> map fst bindings = required
           \<and> insert_columns sql = map fst schema
           \<and> (\<forall>i<length rows.
                build_row (records df ! i) bindings = Inr (rows ! i)
                \<and> length (rows ! i) = length (insert_columns sql)
                \<and> (\<forall>j<length bindings.
                       \<exists>x. map_of (records df ! i) (fst (bindings ! j)) = Some x
                       \<and> snd (bindings ! j) x = Inr (rows ! i ! j)
                       \<and> conforms (rows ! i ! j) (snd (schema ! j))))
           \<and> (\<forall>i r'. i < length rows \<and> map fst r' = columns df \<longrightarrow>
                (\<exists>row'. build_row r' bindings = Inr row'
                   \<and> map_table_rows bindings (df\<lparr>records := (records df)[i := r']\<rparr>)
                       = Inr (rows[i := row'])))"
proof -
  from tbl have facts: "list_all2 typed_binding bindings (map snd schema)"
    "map fst bindings = required" "insert_columns sql = map fst schema"
    by (auto simp: typed_tables table_bindings)
  from facts(1) have len: "length bindings = length schema"
    by (auto dest: list_all2_lengthD)
  from hdr facts(2) have "set (map fst bindings) \<subseteq> set (columns df)"
    by (simp add: missing_columns_Nil)
  from row_mapping_generic [OF facts(1) wf this]
  obtain rows where rows: "map_table_rows bindings df = Inr rows"
    "length rows = length (records df)"
    "\<forall>i<length rows.
        build_row (records df ! i) bindings = Inr (rows ! i)
        \<and> length (rows ! i) = length bindings
        \<and> (\<forall>j<length bindings. \<exists>x. map_of (records df ! i) (fst (bindings ! j)) = Some x
               \<and> snd (bindings ! j) x = Inr (rows ! i ! j)
               \<and> conforms (rows ! i ! j) (map snd schema ! j))"
    "\<forall>i r'. i < length rows \<and> map fst r' = columns df \<longrightarrow>
        (\<exists>row'. build_row r' bindings = Inr row'
           \<and> map_table_rows bindings (df\<lparr>records := (records df)[i := r']\<rparr>)
               = Inr (rows[i := row']))"
    by blast
  have "\<forall>i<length rows.
        build_row (records df ! i) bindings = Inr (rows ! i)
        \<and> length (rows ! i) = length (insert_columns sql)
        \<and> (\<forall>j<length bindings. \<exists>x. map_of (records df ! i) (fst (bindings ! j)) = Some x
               \<and> snd (bindings ! j) x = Inr (rows ! i ! j)
               \<and> conforms (rows ! i ! j) (snd (schema ! j)))"
    using rows(3) len facts(3) by (simp add: nth_map)
  then show ?thesis using rows(1,2,4) facts(2,3) by blast
qed

theorem row_mapping_per_record_witness:
  "wf_dataframe sample_violations_df
   \<and> missing_columns gdpr_violations_required sample_violations_df = []
   \<and> map_table_rows (gdpr_violations_fields sample_env) sample_violations_df =
       Inr [[PyInt 1, PyStr ''pl.svg'', PyStr ''Poland'', PyDecimal (Finite False 9380 0),
             PyStr ''UODO'', PyNone, PyStr ''Private company'', PyStr ''Art. 28 GDPR'',
             PyStr ''Non-cooperation'', PyStr ''https://uodo.gov.pl'', PyStr [], PyInt 28,
             PyStr []],
            [PyInt 2, PyStr ''pl.svg'', PyStr ''Poland'', PyDecimal (Finite False 123450 (- 2)),
             PyStr ''UODO'', PyDate (Date 2020 1 15), PyStr ''Private company'',
             PyStr ''Art. 28 GDPR'', PyStr ''Non-cooperation'', PyStr ''https://uodo.gov.pl'',
             PyStr [], PyInt 28, PyStr []]]
   \<and> (\<exists>rows. map_table_rows (gdpr_violations_fields sample_env) sample_violations_df = Inr rows
         \<and> length rows = length (records sample_violations_df))"
proof -
  have wf: "wf_dataframe sample_violations_df" by code_simp
  have hdr: "missing_columns gdpr_violations_required sample_violations_df = []" by code_simp
  have ev: "map_table_rows (gdpr_violations_fields sample_env) sample_violations_df =
       Inr [[PyInt 1, PyStr ''pl.svg'', PyStr ''Poland'', PyDecimal (Finite False 9380 0),
             PyStr ''UODO'', PyNone, PyStr ''Private company'', PyStr ''Art. 28 GDPR'',
             PyStr ''Non-cooperation'', PyStr ''https://uodo.gov.pl'', PyStr [], PyInt 28,
             PyStr []],
            [PyInt 2, PyStr ''pl.svg'', PyStr ''Poland'', PyDecimal (Finite False 123450 (- 2)),
             PyStr ''UODO'', PyDate (Date 2020 1 15), PyStr ''Private company'',
             PyStr ''Art. 28 GDPR'', PyStr ''Non-cooperation'', PyStr ''https://uodo.gov.pl'',
             PyStr [], PyInt 28, PyStr []]]"
    by code_simp
  have "\<exists>rows. map_table_rows (gdpr_violations_fields sample_env) sample_violations_df = Inr rows
         \<and> length rows = length (records sample_violations_df)"
    using row_mapping_per_record [where env = sample_env and df = sample_violations_df
        and required = gdpr_violations_required
        and bindings = "gdpr_violations_fields sample_env"
        and sql = gdpr_violations_sql and schema = gdpr_violations_schema, OF _ wf hdr]
    by blast
  then show ?thesis using wf hdr ev by blast
qed

section \<open>The loaders\<close>

lemma world_eq: "w = \<lparr>db_trace = db_trace w, stdout = stdout w\<rparr>" for w :: world
  by simp

lemma db_trace_print [simp]: "db_trace (py_print l w) = db_trace w"
  and stdout_print [simp]: "stdout (py_print l w) = stdout w @ [l]"
  by (simp_all add: py_print_def)

lemma db_result:
  "fst (db env c w) = (case db_raises env (db_trace w) c of
                         None \<Rightarrow> Inr () | Some m \<Rightarrow> Inl (DatabaseError m))"
  "db_trace (snd (db env c w)) = db_trace w @ [c]"
  "stdout (snd (db env c w)) = stdout w"
  by (simp_all add: db_def)

lemma execute_all_Nil: "execute_all env sql [] w = (Inr (), w)"
  by simp







lemma load_table_mapped:
  assumes "read_csv env csv_path = Inr df" "missing_columns required df = []"
    "map_table_rows b df = Inr rows"
  shows "load_table env cfg tag required b sql csv_path w =
           bind_io
             (insert_rows env cfg sql rows
                (py_print (''['' @ tag @ ''] Rows prepared: '' @ str_nat (length rows))
                   (py_print (CHR 0x0A # ''['' @ tag @ ''] Reading: '' @ csv_path) w)))
             (\<lambda>_ w3. (Inr (), py_print (''['' @ tag @ ''] Insert complete.'') w3))"
  using assms by (simp add: load_table_def Let_def)




lemma loaders_unfold:
  assumes "(load, tag, required) \<in>
       {(load_gdpr_text, ''gdpr_text'', gdpr_text_required),
        (load_gdpr_violations_derived, ''gdpr_violations_derived'', gdpr_violations_required),
        (load_gdpr_dataset, ''GDPR_dataset'', gdpr_dataset_csv_headers)}"
  shows "\<exists>b ts sql. (\<forall>env. list_all2 typed_binding (b env) ts)
           \<and> (\<forall>env cfg csv_path w.
                 load env cfg csv_path w = load_table env cfg tag required (b env) sql csv_path w)
           \<and> hd tag \<noteq> CHR ''r'' \<and> tag \<noteq> []"
proof -
  from assms consider
      "load = load_gdpr_text" "tag = ''gdpr_text''" "required = gdpr_text_required"
    | "load = load_gdpr_violations_derived" "tag = ''gdpr_violations_derived''"
      "required = gdpr_violations_required"
    | "load = load_gdpr_dataset" "tag = ''GDPR_dataset''" "required = gdpr_dataset_csv_headers"
    by auto
  then show ?thesis
  proof cases
    case 1
    have "(\<forall>env. list_all2 typed_binding (gdpr_text_fields env) (map snd gdpr_text_schema))
           \<and> (\<forall>env cfg csv_path w.
                 load env cfg csv_path w
                 = load_table env cfg tag required (gdpr_text_fields env) gdpr_text_sql csv_path w)
           \<and> hd tag \<noteq> CHR ''r'' \<and> tag \<noteq> []"
      using 1 by (simp add: typed_tables load_gdpr_text_def)
    then show ?thesis by blast
  next
    case 2
    have "(\<forall>env. list_all2 typed_binding (gdpr_violations_fields env) (map snd gdpr_violations_schema))
           \<and> (\<forall>env cfg csv_path w.
                 load env cfg csv_path w
                 = load_table env cfg tag required (gdpr_violations_fields env)
                     gdpr_violations_sql csv_path w)
           \<and> hd tag \<noteq> CHR ''r'' \<and> tag \<noteq> []"
      using 2 by (simp add: typed_tables load_gdpr_violations_derived_def)
    then show ?thesis by blast
  next
    case 3
    have "(\<forall>env. list_all2 typed_binding (gdpr_dataset_fields env) (map snd gdpr_dataset_schema))
           \<and> (\<forall>env cfg csv_path w.
                 load env cfg csv_path w
                 = load_table env cfg tag required (gdpr_dataset_fields env)
                     gdpr_dataset_sql csv_path w)
           \<and> hd tag \<noteq> CHR ''r'' \<and> tag \<noteq> []"
      using 3 by (simp add: typed_tables load_gdpr_dataset_def)
    then show ?thesis by blast
  qed
qed



lemma chunk_iter_Nil:
  "chunk_iter [] n = (if n = 0 then Inl (ValueError ''range() arg 3 must not be zero'') else Inr [])"
  by (simp add: chunk_iter_def chunk_from.simps)

lemma insert_rows_Nil:
  "insert_rows env cfg sql [] w =
     (case db_raises env (db_trace w) Cursor of
        Some m \<Rightarrow> (Inl (DatabaseError m), w\<lparr>db_trace := db_trace w @ [Cursor]\<rparr>)
      | None \<Rightarrow>
          if BATCH_SIZE cfg = 0
          then (Inl (ValueError ''range() arg 3 must not be zero''),
                w\<lparr>db_trace := db_trace w @ [Cursor]\<rparr>)
          else db env Commit (w\<lparr>db_trace := db_trace w @ [Cursor]\<rparr>))"
  by (simp add: insert_rows_def bind_io_def db_def chunk_iter_Nil split: option.splits)

text \<open>
  Claim C10, amended. For each of the three loaders, if the file has all required columns
  and no data row, the loader issues no insert statement (the only driver calls it makes
  are \<^verbatim>\<open>cursor\<close> and \<^verbatim>\<open>commit\<close>); and if \<^verbatim>\<open>BATCH_SIZE\<close> is not 0 and opening the
  cursor and the commit do not fail, it commits and completes without error.
\<close>

theorem empty_file_no_insert:
  assumes ld: "(load, tag, required) \<in>
       {(load_gdpr_text, ''gdpr_text'', gdpr_text_required),
        (load_gdpr_violations_derived, ''gdpr_violations_derived'', gdpr_violations_required),
        (load_gdpr_dataset, ''GDPR_dataset'', gdpr_dataset_csv_headers)}"
    and rd: "read_csv env csv_path = Inr df"
    and hdr: "missing_columns required df = []"
    and empty: "records df = []"
  shows "(\<exists>t. db_trace (snd (load env cfg csv_path w)) = db_trace w @ t
              \<and> set t \<subseteq> {Cursor, Commit})
         \<and> (BATCH_SIZE cfg \<noteq> 0 \<and> db_raises env (db_trace w) Cursor = None
             \<and> db_raises env (db_trace w @ [Cursor]) Commit = None \<longrightarrow>
              load env cfg csv_path w =
                (Inr (),
                 \<lparr>db_trace = db_trace w @ [Cursor, Commit],
                  stdout = stdout w @ [CHR 0x0A # ''['' @ tag @ ''] Reading: '' @ csv_path,
                                       ''['' @ tag @ ''] Rows prepared: 0'',
                                       ''['' @ tag @ ''] Insert complete.'']\<rparr>))"
proof -
  from loaders_unfold [OF ld] obtain b ts sql where
    load: "\<And>env cfg csv_path w.
                 load env cfg csv_path w = load_table env cfg tag required (b env) sql csv_path w"
    by blast
  have rows: "map_table_rows (b env) df = Inr []"
    using empty by (simp add: map_table_rows_def)
  have z: "str_nat 0 = ''0''" by code_simp
  let ?w2 = "py_print (''['' @ tag @ ''] Rows prepared: '' @ str_nat (length ([] :: py_value list list)))
               (py_print (CHR 0x0A # ''['' @ tag @ ''] Reading: '' @ csv_path) w)"
  have unf: "load env cfg csv_path w =
      bind_io (insert_rows env cfg sql [] ?w2)
        (\<lambda>_ w3. (Inr (), py_print (''['' @ tag @ ''] Insert complete.'') w3))"
    unfolding load by (rule load_table_mapped [OF rd hdr rows])
  have tr: "db_trace ?w2 = db_trace w" by simp
  have 1: "\<exists>t. db_trace (snd (load env cfg csv_path w)) = db_trace w @ t
              \<and> set t \<subseteq> {Cursor, Commit}"
  proof (cases "db_raises env (db_trace w) Cursor")
    case (Some m)
    then have "db_trace (snd (load env cfg csv_path w)) = db_trace w @ [Cursor]"
      by (simp add: unf insert_rows_Nil bind_io_def)
    then show ?thesis by simp
  next
    case None
    show ?thesis
    proof (cases "BATCH_SIZE cfg = 0")
      case True
      with None have "db_trace (snd (load env cfg csv_path w)) = db_trace w @ [Cursor]"
        by (simp add: unf insert_rows_Nil bind_io_def)
      then show ?thesis by simp
    next
      case False
      with None have "db_trace (snd (load env cfg csv_path w)) = db_trace w @ [Cursor, Commit]"
        by (simp add: unf insert_rows_Nil bind_io_def db_def split: option.splits)
      then show ?thesis by simp
    qed
  qed
  have 2: "load env cfg csv_path w =
                (Inr (),
                 \<lparr>db_trace = db_trace w @ [Cursor, Commit],
                  stdout = stdout w @ [CHR 0x0A # ''['' @ tag @ ''] Reading: '' @ csv_path,
                                       ''['' @ tag @ ''] Rows prepared: 0'',
                                       ''['' @ tag @ ''] Insert complete.'']\<rparr>)"
    if "BATCH_SIZE cfg \<noteq> 0 \<and> db_raises env (db_trace w) Cursor = None
             \<and> db_raises env (db_trace w @ [Cursor]) Commit = None"
    using that by (simp add: unf insert_rows_Nil bind_io_def db_def py_print_def z)
  show ?thesis using 1 2 by blast
qed

theorem empty_file_no_insert_witness:
  "read_csv sample_env ''GDPRdataset.csv'' = Inr sample_dataset_df
   \<and> missing_columns gdpr_dataset_csv_headers sample_dataset_df = []
   \<and> records sample_dataset_df = []
   \<and> BATCH_SIZE sample_config \<noteq> 0
   \<and> load_gdpr_dataset sample_env sample_config ''GDPRdataset.csv'' empty_world =
        (Inr (),
         \<lparr>db_trace = [Cursor, Commit],
          stdout = [CHR 0x0A # ''[GDPR_dataset] Reading: GDPRdataset.csv'',
                    ''[GDPR_dataset] Rows prepared: 0'',
                    ''[GDPR_dataset] Insert complete.'']\<rparr>)"
proof -
  have a: "read_csv sample_env ''GDPRdataset.csv'' = Inr sample_dataset_df"
    "missing_columns gdpr_dataset_csv_headers sample_dataset_df = []"
    "records sample_dataset_df = []"
    "BATCH_SIZE sample_config \<noteq> 0"
    "db_raises sample_env (db_trace empty_world) Cursor = None"
    "db_raises sample_env (db_trace empty_world @ [Cursor]) Commit = None"
    "db_trace empty_world = []" "stdout empty_world = []"
    by code_simp+
  from empty_file_no_insert [where load = load_gdpr_dataset and tag = "''GDPR_dataset''"
      and required = gdpr_dataset_csv_headers and env = sample_env and cfg = sample_config
      and csv_path = "''GDPRdataset.csv''" and df = sample_dataset_df and w = empty_world,
      OF _ a(1,2,3)] a(4,5,6)
  have "load_gdpr_dataset sample_env sample_config ''GDPRdataset.csv'' empty_world =
        (Inr (),
         \<lparr>db_trace = db_trace empty_world @ [Cursor, Commit],
          stdout = stdout empty_world
             @ [CHR 0x0A # ''['' @ ''GDPR_dataset'' @ ''] Reading: '' @ ''GDPRdataset.csv'',
                ''['' @ ''GDPR_dataset'' @ ''] Rows prepared: 0'',
                ''['' @ ''GDPR_dataset'' @ ''] Insert complete.'']\<rparr>)"
    by simp
  then show ?thesis using a by simp
qed

text \<open>
  With \<^verbatim>\<open>BATCH_SIZE\<close> 0, \<^verbatim>\<open>range(0, 0, 0)\<close> raises \<^verbatim>\<open>ValueError\<close> on the empty
  sequence too: the loader of a file with all its columns and no row raises, and does not
  commit.
\<close>

theorem empty_file_zero_batch_counterexample:
  "read_csv sample_env ''GDPRdataset.csv'' = Inr sample_dataset_df
   \<and> missing_columns gdpr_dataset_csv_headers sample_dataset_df = []
   \<and> records sample_dataset_df = []
   \<and> load_gdpr_dataset sample_env (sample_config\<lparr>BATCH_SIZE := 0\<rparr>) ''GDPRdataset.csv''
        empty_world =
        (Inl (ValueError ''range() arg 3 must not be zero''),
         \<lparr>db_trace = [Cursor],
          stdout = [CHR 0x0A # ''[GDPR_dataset] Reading: GDPRdataset.csv'',
                    ''[GDPR_dataset] Rows prepared: 0'']\<rparr>)"
  by code_simp

section \<open>The run\<close>

lemma find_missing_None:
  "find (\<lambda>path. \<not> path_exists env path)
     [CSV_GDPR_TEXT cfg, CSV_GDPR_VIOLATIONS cfg, CSV_GDPR_DATASET cfg] = None
   \<longleftrightarrow> all_files_exist env cfg"
  by (simp add: find_None_iff all_files_exist_def)

lemma find_SomeD: "find P xs = Some x \<Longrightarrow> x \<in> set xs \<and> P x"
  by (induction xs) (auto split: if_splits)

lemma main_missing:
  assumes "\<not> all_files_exist env cfg"
  shows "\<exists>p. p \<in> set [CSV_GDPR_TEXT cfg, CSV_GDPR_VIOLATIONS cfg, CSV_GDPR_DATASET cfg]
            \<and> \<not> path_exists env p
            \<and> main env cfg w = (SysExit 1, py_print (''ERROR: CSV not found -> '' @ p) w)"
proof -
  let ?ps = "[CSV_GDPR_TEXT cfg, CSV_GDPR_VIOLATIONS cfg, CSV_GDPR_DATASET cfg]"
  from assms obtain p where p: "find (\<lambda>path. \<not> path_exists env path) ?ps = Some p"
    using find_missing_None [of env cfg] by (cases "find (\<lambda>path. \<not> path_exists env path) ?ps") auto
  from find_SomeD [OF this] have "p \<in> set ?ps" "\<not> path_exists env p"
    by blast+
  moreover from p have "main env cfg w = (SysExit 1, py_print (''ERROR: CSV not found -> '' @ p) w)"
    by (simp add: main_def)
  ultimately show ?thesis by blast
qed

lemma main_connect_fails:
  assumes "all_files_exist env cfg" "db_raises env (db_trace w) Connect = Some m"
  shows "main env cfg w =
           (Returned,
            \<lparr>db_trace = db_trace w @ [Connect],
             stdout = stdout w @ [connecting_line cfg, error_line (DatabaseError m),
                                  ''Connection closed.'']\<rparr>)"
  using assms find_missing_None [of env cfg]
  by (simp add: main_def db_def py_print_def)

lemma finally_close_result:
  "finally_close env out w =
     (case db_raises env (db_trace w) Close of
        Some m \<Rightarrow> (Uncaught (DatabaseError m), w\<lparr>db_trace := db_trace w @ [Close]\<rparr>)
      | None \<Rightarrow> (out, \<lparr>db_trace = db_trace w @ [Close],
                       stdout = stdout w @ [''Connection closed.'']\<rparr>))"
  by (simp add: finally_close_def db_def py_print_def split: option.splits)

lemma world_update_eq:
  "w\<lparr>db_trace := t, stdout := s\<rparr> = \<lparr>db_trace = t, stdout = s\<rparr>"
  "w\<lparr>stdout := s, db_trace := t\<rparr> = \<lparr>db_trace = t, stdout = s\<rparr>"
  for w :: world
  by simp_all

lemma main_connected:
  assumes ex: "all_files_exist env cfg" and conn: "db_raises env (db_trace w) Connect = None"
    and run: "run_loaders env cfg
                \<lparr>db_trace = db_trace w @ [Connect],
                 stdout = stdout w @ [connecting_line cfg, ''Connected.'']\<rparr> = (r, w2)"
  shows "main env cfg w =
     (case r of
        Inr u \<Rightarrow>
          finally_close env Returned
            (py_print (CHR 0x0A # ''All inserts completed successfully.'' @ [CHR 0x0A]) w2)
      | Inl e \<Rightarrow>
          finally_close env
            (case db_raises env (db_trace w2) Rollback of
               Some m \<Rightarrow> Uncaught (DatabaseError m) | None \<Rightarrow> Returned)
            \<lparr>db_trace = db_trace w2 @ [Rollback], stdout = stdout w2 @ [error_line e]\<rparr>)"
proof -
  have f: "find (\<lambda>path. \<not> path_exists env path)
             [CSV_GDPR_TEXT cfg, CSV_GDPR_VIOLATIONS cfg, CSV_GDPR_DATASET cfg] = None"
    using ex by (simp only: find_missing_None)
  have c: "db env Connect (py_print (connecting_line cfg) w)
             = (Inr (), \<lparr>db_trace = db_trace w @ [Connect],
                         stdout = stdout w @ [connecting_line cfg]\<rparr>)"
    using conn by (simp add: db_def py_print_def)
  have p: "py_print ''Connected.'' \<lparr>db_trace = db_trace w @ [Connect],
                                      stdout = stdout w @ [connecting_line cfg]\<rparr>
             = \<lparr>db_trace = db_trace w @ [Connect],
                stdout = stdout w @ [connecting_line cfg, ''Connected.'']\<rparr>"
    by (simp add: py_print_def)
  have m: "main env cfg w =
     (case (r, w2) of
        (Inr u, w2) \<Rightarrow>
          finally_close env Returned
            (py_print (CHR 0x0A # ''All inserts completed successfully.'' @ [CHR 0x0A]) w2)
      | (Inl e, w2) \<Rightarrow>
          (case db env Rollback (py_print (error_line e) w2) of
             (Inl e2, w3) \<Rightarrow> finally_close env (Uncaught e2) w3
           | (Inr u, w3) \<Rightarrow> finally_close env Returned w3))"
    unfolding main_def f c by (simp only: option.case prod.case sum.case p run)
  show ?thesis
  proof (cases r)
    case (Inr u)
    then show ?thesis by (simp add: m)
  next
    case (Inl e)
    then show ?thesis
      by (cases "db_raises env (db_trace w2) Rollback")
         (simp_all add: m db_def py_print_def world_update_eq)
  qed
qed

lemma exit_status_simps:
  "exit_status Returned = 0" "exit_status (SysExit n) = n" "exit_status (Uncaught e) = 1"
  by (simp_all add: exit_status_def)

text \<open>
  Claim C6, amended. If a configured file does not exist, the process exits with status 1
  before any call to the database driver. If all exist: a failing \<^verbatim>\<open>connect\<close> is
  caught and logged, no rollback follows (there is no connection) and \<^verbatim>\<open>main\<close>
  returns, status 0; an exception raised by a loader is caught and logged, then
  \<^verbatim>\<open>rollback\<close> and \<^verbatim>\<open>close\<close> are called, and \<^verbatim>\<open>main\<close> returns with status 0 when
  these two do not raise. Whenever \<^verbatim>\<open>rollback\<close> and \<^verbatim>\<open>close\<close> cannot raise, the
  exit status is not zero if and only if some configured file does not exist.
\<close>

theorem main_exit_status:
  "(\<not> all_files_exist env cfg \<longrightarrow>
      (\<exists>p. p \<in> set [CSV_GDPR_TEXT cfg, CSV_GDPR_VIOLATIONS cfg, CSV_GDPR_DATASET cfg]
          \<and> \<not> path_exists env p
          \<and> main env cfg w = (SysExit 1, py_print (''ERROR: CSV not found -> '' @ p) w))
      \<and> exit_status (fst (main env cfg w)) = 1
      \<and> db_trace (snd (main env cfg w)) = db_trace w)
   \<and> (all_files_exist env cfg \<longrightarrow>
        (\<forall>m. db_raises env (db_trace w) Connect = Some m \<longrightarrow>
           main env cfg w =
             (Returned,
              \<lparr>db_trace = db_trace w @ [Connect],
               stdout = stdout w @ [connecting_line cfg, error_line (DatabaseError m),
                                    ''Connection closed.'']\<rparr>))
        \<and> (db_raises env (db_trace w) Connect = None \<longrightarrow>
             (\<forall>e w2.
                run_loaders env cfg
                  \<lparr>db_trace = db_trace w @ [Connect],
                   stdout = stdout w @ [connecting_line cfg, ''Connected.'']\<rparr> = (Inl e, w2)
                \<longrightarrow>
                  db_trace (snd (main env cfg w)) = db_trace w2 @ [Rollback, Close]
                  \<and> (\<exists>rest. stdout (snd (main env cfg w)) = stdout w2 @ error_line e # rest)
                  \<and> (db_raises env (db_trace w2) Rollback = None
                       \<and> db_raises env (db_trace w2 @ [Rollback]) Close = None \<longrightarrow>
                       main env cfg w =
                         (Returned,
                          \<lparr>db_trace = db_trace w2 @ [Rollback, Close],
                           stdout = stdout w2 @ [error_line e, ''Connection closed.'']\<rparr>)))))
   \<and> ((\<forall>calls. db_raises env calls Rollback = None \<and> db_raises env calls Close = None) \<longrightarrow>
        (exit_status (fst (main env cfg w)) \<noteq> 0 \<longleftrightarrow> \<not> all_files_exist env cfg))"
proof -
  have A: "(\<exists>p. p \<in> set [CSV_GDPR_TEXT cfg, CSV_GDPR_VIOLATIONS cfg, CSV_GDPR_DATASET cfg]
          \<and> \<not> path_exists env p
          \<and> main env cfg w = (SysExit 1, py_print (''ERROR: CSV not found -> '' @ p) w))
      \<and> exit_status (fst (main env cfg w)) = 1
      \<and> db_trace (snd (main env cfg w)) = db_trace w"
    if "\<not> all_files_exist env cfg"
  proof -
    from main_missing [OF that, of w] obtain p where
      p: "p \<in> set [CSV_GDPR_TEXT cfg, CSV_GDPR_VIOLATIONS cfg, CSV_GDPR_DATASET cfg]"
        "\<not> path_exists env p"
        "main env cfg w = (SysExit 1, py_print (''ERROR: CSV not found -> '' @ p) w)"
      by blast
    from p(3) have "exit_status (fst (main env cfg w)) = 1"
      "db_trace (snd (main env cfg w)) = db_trace w"
      by (simp_all add: exit_status_simps)
    with p show ?thesis by blast
  qed
  have B: "main env cfg w =
             (Returned,
              \<lparr>db_trace = db_trace w @ [Connect],
               stdout = stdout w @ [connecting_line cfg, error_line (DatabaseError m),
                                    ''Connection closed.'']\<rparr>)"
    if "all_files_exist env cfg" "db_raises env (db_trace w) Connect = Some m" for m
    using that by (rule main_connect_fails)
  have C: "db_trace (snd (main env cfg w)) = db_trace w2 @ [Rollback, Close]
           \<and> (\<exists>rest. stdout (snd (main env cfg w)) = stdout w2 @ error_line e # rest)
           \<and> (db_raises env (db_trace w2) Rollback = None
                \<and> db_raises env (db_trace w2 @ [Rollback]) Close = None \<longrightarrow>
                main env cfg w =
                  (Returned,
                   \<lparr>db_trace = db_trace w2 @ [Rollback, Close],
                    stdout = stdout w2 @ [error_line e, ''Connection closed.'']\<rparr>))"
    if ex: "all_files_exist env cfg" and conn: "db_raises env (db_trace w) Connect = None"
      and run: "run_loaders env cfg
                  \<lparr>db_trace = db_trace w @ [Connect],
                   stdout = stdout w @ [connecting_line cfg, ''Connected.'']\<rparr> = (Inl e, w2)"
    for e w2
  proof -
    note m = main_connected [OF ex conn run]
    show ?thesis
      by (cases "db_raises env (db_trace w2) Rollback";
          cases "db_raises env (db_trace w2 @ [Rollback]) Close")
         (simp_all add: m finally_close_result)
  qed
  have D: "exit_status (fst (main env cfg w)) \<noteq> 0 \<longleftrightarrow> \<not> all_files_exist env cfg"
    if never: "\<forall>calls. db_raises env calls Rollback = None \<and> db_raises env calls Close = None"
  proof (cases "all_files_exist env cfg")
    case False
    with A show ?thesis by simp
  next
    case True
    have "exit_status (fst (main env cfg w)) = 0"
    proof (cases "db_raises env (db_trace w) Connect")
      case (Some m)
      with B [OF True] show ?thesis by (simp add: exit_status_simps)
    next
      case None
      obtain r w2 where run: "run_loaders env cfg
                  \<lparr>db_trace = db_trace w @ [Connect],
                   stdout = stdout w @ [connecting_line cfg, ''Connected.'']\<rparr> = (r, w2)"
        by (cases "run_loaders env cfg
                  \<lparr>db_trace = db_trace w @ [Connect],
                   stdout = stdout w @ [connecting_line cfg, ''Connected.'']\<rparr>")
      show ?thesis
        using never
        by (cases r) (simp_all add: main_connected [OF True None run] finally_close_result
                         exit_status_simps)
    qed
    with True show ?thesis by simp
  qed
  show ?thesis using A B C D by blast
qed

theorem main_exit_status_witness:
  "\<not> all_files_exist sample_env (sample_config\<lparr>CSV_GDPR_DATASET := ''nowhere.csv''\<rparr>)
   \<and> exit_status (fst (main sample_env (sample_config\<lparr>CSV_GDPR_DATASET := ''nowhere.csv''\<rparr>)
                          empty_world)) = 1
   \<and> db_trace (snd (main sample_env (sample_config\<lparr>CSV_GDPR_DATASET := ''nowhere.csv''\<rparr>)
                       empty_world)) = []
   \<and> all_files_exist sample_env_refused sample_config
   \<and> db_raises sample_env_refused (db_trace empty_world) Connect = Some ''connection refused''
   \<and> main sample_env_refused sample_config empty_world =
       (Returned,
        \<lparr>db_trace = [Connect],
         stdout = [connecting_line sample_config,
                   error_line (DatabaseError ''connection refused''),
                   ''Connection closed.'']\<rparr>)
   \<and> all_files_exist sample_env_no_controller sample_config
   \<and> fst (run_loaders sample_env_no_controller sample_config
             \<lparr>db_trace = [Connect],
              stdout = [connecting_line sample_config, ''Connected.'']\<rparr>)
       = Inl (ValueError (missing_message ''gdpr_violations_derived'' [''controller'']))
   \<and> fst (main sample_env_no_controller sample_config empty_world) = Returned
   \<and> db_trace (snd (main sample_env_no_controller sample_config empty_world))
       = db_trace (snd (run_loaders sample_env_no_controller sample_config
                          \<lparr>db_trace = [Connect],
                           stdout = [connecting_line sample_config, ''Connected.'']\<rparr>))
         @ [Rollback, Close]
   \<and> (\<forall>calls. db_raises sample_env calls Rollback = None
               \<and> db_raises sample_env calls Close = None)
   \<and> all_files_exist sample_env sample_config
   \<and> exit_status (fst (main sample_env sample_config empty_world)) = 0"
proof -
  let ?cfgM = "sample_config\<lparr>CSV_GDPR_DATASET := ''nowhere.csv''\<rparr>"
  let ?w1 = "\<lparr>db_trace = [Connect], stdout = [connecting_line sample_config, ''Connected.'']\<rparr>"
  let ?E = "ValueError (missing_message ''gdpr_violations_derived'' [''controller''])"
  let ?w2 = "snd (run_loaders sample_env_no_controller sample_config ?w1)"
  have ew: "db_trace empty_world = []" "stdout empty_world = []"
    by (simp_all add: empty_world_def)
  have m: "\<not> all_files_exist sample_env ?cfgM" by code_simp
  have r: "all_files_exist sample_env_refused sample_config"
    "db_raises sample_env_refused (db_trace empty_world) Connect = Some ''connection refused''"
    by code_simp+
  have n: "all_files_exist sample_env_no_controller sample_config"
    "db_raises sample_env_no_controller (db_trace empty_world) Connect = None"
    "fst (run_loaders sample_env_no_controller sample_config ?w1) = Inl ?E"
    by code_simp+
  have nr: "db_raises sample_env_no_controller calls Rollback = None"
    "db_raises sample_env_no_controller calls Close = None" for calls
    by (simp_all add: sample_env_no_controller_def sample_env_def)
  have s: "\<forall>calls. db_raises sample_env calls Rollback = None
               \<and> db_raises sample_env calls Close = None"
    by (simp add: sample_env_def)
  have a: "all_files_exist sample_env sample_config" by code_simp
  note t = main_exit_status [where w = empty_world]
  from t [where env = sample_env and cfg = ?cfgM] m
  have 1: "exit_status (fst (main sample_env ?cfgM empty_world)) = 1"
    "db_trace (snd (main sample_env ?cfgM empty_world)) = []"
    by (simp_all add: ew)
  from t [where env = sample_env_refused and cfg = sample_config] r
  have 2: "main sample_env_refused sample_config empty_world =
       (Returned,
        \<lparr>db_trace = [Connect],
         stdout = [connecting_line sample_config,
                   error_line (DatabaseError ''connection refused''),
                   ''Connection closed.'']\<rparr>)"
    by (simp add: ew)
  have run: "run_loaders sample_env_no_controller sample_config
               \<lparr>db_trace = db_trace empty_world @ [Connect],
                stdout = stdout empty_world @ [connecting_line sample_config, ''Connected.'']\<rparr>
             = (Inl ?E, ?w2)"
    using n(3) by (simp add: ew prod_eq_iff)
  from t [where env = sample_env_no_controller and cfg = sample_config] n(1,2) run nr
  have "main sample_env_no_controller sample_config empty_world =
          (Returned,
           \<lparr>db_trace = db_trace ?w2 @ [Rollback, Close],
            stdout = stdout ?w2 @ [error_line ?E, ''Connection closed.'']\<rparr>)"
    by blast
  then have 3: "fst (main sample_env_no_controller sample_config empty_world) = Returned"
    "db_trace (snd (main sample_env_no_controller sample_config empty_world))
       = db_trace ?w2 @ [Rollback, Close]"
    by simp_all
  from t [where env = sample_env and cfg = sample_config] s a
  have 4: "exit_status (fst (main sample_env sample_config empty_world)) = 0"
    by blast
  show ?thesis
    using m 1 r 2 n(1,3) 3 s a 4 by (intro conjI)
qed

text \<open>
  All three files exist in both runs. When the connection is lost during the first
  insert, \<^verbatim>\<open>rollback\<close> raises inside the handler and the process ends with status 1.
  When \<^verbatim>\<open>connect\<close> is refused, the exception is caught and logged and no rollback
  follows.
\<close>

theorem main_exit_status_counterexample:
  "all_files_exist sample_env_lost sample_config
   \<and> fst (main sample_env_lost sample_config empty_world)
       = Uncaught (DatabaseError ''connection already closed'')
   \<and> exit_status (fst (main sample_env_lost sample_config empty_world)) = 1
   \<and> all_files_exist sample_env_refused sample_config
   \<and> main sample_env_refused sample_config empty_world =
       (Returned,
        \<lparr>db_trace = [Connect],
         stdout = [''Connecting to Postgres localhost:5432 db=capstone ...'',
                   CHR 0x0A # ''An error occurred: connection refused'' @ [CHR 0x0A],
                   ''Connection closed.'']\<rparr>)
   \<and> Rollback \<notin> set (db_trace (snd (main sample_env_refused sample_config empty_world)))"
  by code_simp

end
